theory Spec2Isabelle
  imports Main "HOL-Library.Word" "HOL-Library.AList" "HOL-Library.Sublist"
begin

unbundle bit_operations_syntax

section \<open>Python values of \<^verbatim>\<open>read_p1.py\<close>\<close>

text \<open>
  The exceptions the program can raise are values of \<open>error\<close>; a computation that may
  raise returns \<open>error + 'a\<close>, with \<open>Inl\<close> for the exception.

  A \<^verbatim>\<open>bytes\<close> object is a list of 8-bit characters. A \<^verbatim>\<open>str\<close> is the list of its
  characters; every \<^verbatim>\<open>str\<close> the program handles comes from \<^verbatim>\<open>.decode('ascii')\<close>,
  so its characters are ASCII. (The one exception, the UTF-8 decoding of a serial number,
  keeps a non-ASCII text in its UTF-8 encoded form.)
\<close>

datatype error =
  UnicodeDecodeError | ValueError | UnboundLocalError | IndexError | KeyError
  | NameError | TypeError | OSError

type_synonym bytes = string

abbreviation CR :: char where "CR \<equiv> CHR 0x0D"
abbreviation LF :: char where "LF \<equiv> CHR 0x0A"

definition bind_err :: "error + 'a \<Rightarrow> ('a \<Rightarrow> error + 'b) \<Rightarrow> error + 'b" where
  "bind_err m f = (case m of Inl e \<Rightarrow> Inl e | Inr x \<Rightarrow> f x)"

text \<open>\<^verbatim>\<open>b.decode('ascii')\<close>: fails on any byte above 127.\<close>

definition decode_ascii :: "bytes \<Rightarrow> error + string" where
  "decode_ascii b =
     (if list_all (\<lambda>c. (of_char c :: nat) < 128) b then Inr b else Inl UnicodeDecodeError)"

text \<open>\<^verbatim>\<open>needle in s\<close> on strings: \<open>needle\<close> occurs as a contiguous part of \<open>s\<close>.\<close>

fun str_in :: "'a list \<Rightarrow> 'a list \<Rightarrow> bool" where
  "str_in needle [] = (needle = [])"
| "str_in needle (c # cs) = (prefix needle (c # cs) \<or> str_in needle cs)"

text \<open>\<^verbatim>\<open>s.split(sep)\<close> for a one-character separator: always at least one piece.\<close>

fun split_on :: "'a \<Rightarrow> 'a list \<Rightarrow> 'a list list" where
  "split_on sep [] = [[]]"
| "split_on sep (c # cs) =
     (if c = sep then [] # split_on sep cs
      else (case split_on sep cs of [] \<Rightarrow> [[c]] | p # ps \<Rightarrow> (c # p) # ps))"

text \<open>\<^verbatim>\<open>s.strip()\<close>: the white space of \<^verbatim>\<open>str.isspace\<close> among the first 256 code points.\<close>

definition str_isspace :: "char \<Rightarrow> bool" where
  "str_isspace c =
     (let n = (of_char c :: nat)
      in (9 \<le> n \<and> n \<le> 13) \<or> (28 \<le> n \<and> n \<le> 32) \<or> n = 133 \<or> n = 160)"

definition py_strip :: "string \<Rightarrow> string" where
  "py_strip s = rev (dropWhile str_isspace (rev (dropWhile str_isspace s)))"

subsection \<open>\<^verbatim>\<open>int(s, 16)\<close> and \<^verbatim>\<open>hex(n)\<close>\<close>

text \<open>
  \<^verbatim>\<open>int(s, 16)\<close> as CPython reads an ASCII string: white space around the number, an
  optional sign, an optional \<^verbatim>\<open>0x\<close> prefix (one underscore may follow it), then hex
  digits with single underscores between them. Anything else is a \<^verbatim>\<open>ValueError\<close>.
\<close>

definition c_isspace :: "char \<Rightarrow> bool" where
  "c_isspace c = (let n = (of_char c :: nat) in (9 \<le> n \<and> n \<le> 13) \<or> n = 32)"

definition hexval :: "char \<Rightarrow> nat option" where
  "hexval c =
     (let n = (of_char c :: nat)
      in if 48 \<le> n \<and> n \<le> 57 then Some (n - 48)
         else if 97 \<le> n \<and> n \<le> 102 then Some (n - 87)
         else if 65 \<le> n \<and> n \<le> 70 then Some (n - 55)
         else None)"

text \<open>
  The digit scan: \<open>prev\<close> is the character read last (\<open>None\<close> at the start), \<open>nd\<close>
  counts the digits, \<open>acc\<close> is the value so far. It stops at the first character that is
  neither a digit nor an underscore and returns what is left of the string.
\<close>

fun scan_digits :: "char option \<Rightarrow> nat \<Rightarrow> nat \<Rightarrow> string \<Rightarrow> (nat \<times> nat \<times> string) option" where
  "scan_digits prev nd acc [] =
     (if prev = Some (CHR ''_'') then None else Some (nd, acc, []))"
| "scan_digits prev nd acc (c # cs) =
     (if c = CHR ''_'' then
        (if prev = Some (CHR ''_'') then None else scan_digits (Some c) nd acc cs)
      else (case hexval c of
              Some d \<Rightarrow> scan_digits (Some c) (nd + 1) (16 * acc + d) cs
            | None \<Rightarrow> if prev = Some (CHR ''_'') then None else Some (nd, acc, c # cs)))"

definition skip_prefix :: "string \<Rightarrow> string" where
  "skip_prefix s =
     (case s of
        a # b # r \<Rightarrow>
          if a = CHR ''0'' \<and> (b = CHR ''x'' \<or> b = CHR ''X'')
          then (case r of u # r' \<Rightarrow> if u = CHR ''_'' then r' else r | [] \<Rightarrow> r)
          else s
      | _ \<Rightarrow> s)"

definition py_int16 :: "string \<Rightarrow> error + int" where
  "py_int16 s =
     (let s1 = dropWhile c_isspace s;
          (neg, s2) = (case s1 of
                         c # r \<Rightarrow> if c = CHR ''+'' then (False, r)
                                  else if c = CHR ''-'' then (True, r) else (False, s1)
                       | [] \<Rightarrow> (False, s1));
          s3 = skip_prefix s2
      in if take 1 s3 = ''_'' then Inl ValueError
         else (case scan_digits None 0 0 s3 of
                 None \<Rightarrow> Inl ValueError
               | Some (nd, v, rest) \<Rightarrow>
                   if nd = 0 then Inl ValueError
                   else if dropWhile c_isspace rest \<noteq> [] then Inl ValueError
                   else Inr (if neg then - int v else int v)))"

text \<open>\<^verbatim>\<open>hex(n)\<close>: sign, \<^verbatim>\<open>0x\<close>, lower-case digits without leading zeros.\<close>

definition hexdigit :: "nat \<Rightarrow> char" where
  "hexdigit d = ''0123456789abcdef'' ! d"

function hexdigits :: "nat \<Rightarrow> string" where
  "hexdigits n = (if n < 16 then [hexdigit n] else hexdigits (n div 16) @ [hexdigit (n mod 16)])"
  by pat_completeness auto
termination
  by (relation "measure id") auto

declare hexdigits.simps [simp del]

definition py_hex :: "int \<Rightarrow> string" where
  "py_hex n = (if n < 0 then ''-0x'' @ hexdigits (nat (- n)) else ''0x'' @ hexdigits (nat n))"

subsection \<open>CRC-16/ARC, the \<^verbatim>\<open>crc16\<close> of crcmod\<close>

text \<open>
  \<^verbatim>\<open>crcmod.predefined.mkPredefinedCrcFun('crc16')\<close>: polynomial \<^verbatim>\<open>0x18005\<close>
  bit-reversed (\<^verbatim>\<open>0xA001\<close>), initial value 0, no final XOR.
\<close>

definition crc16_bit :: "16 word \<Rightarrow> 16 word" where
  "crc16_bit c = (if bit c 0 then drop_bit 1 c XOR 0xA001 else drop_bit 1 c)"

definition crc16_byte :: "16 word \<Rightarrow> char \<Rightarrow> 16 word" where
  "crc16_byte c b = (crc16_bit ^^ 8) (c XOR of_char b)"

definition crc16 :: "bytes \<Rightarrow> 16 word" where
  "crc16 bs = foldl crc16_byte 0 bs"

section \<open>\<^verbatim>\<open>checkcrc\<close>\<close>

text \<open>
  \<^verbatim>\<open>re.compile(b'\r\n(?=!)').finditer(p1telegram)\<close>: the matches from left to right, each
  given by its \<^verbatim>\<open>match.end()\<close>, the offset just behind \<^verbatim>\<open>\r\n\<close> (where the \<^verbatim>\<open>!\<close> stands).
  The search continues behind the two characters of a match.
\<close>

fun finditer :: "nat \<Rightarrow> bytes \<Rightarrow> nat list" where
  "finditer i (a # b # c # rest) =
     (if a = CR \<and> b = LF \<and> c = CHR ''!'' then (i + 2) # finditer (i + 2) (c # rest)
      else finditer (i + 1) (b # c # rest))"
| "finditer i _ = []"

text \<open>
  The body of the \<^verbatim>\<open>for\<close> loop, once per match: it binds \<^verbatim>\<open>p1contents\<close> and
  \<^verbatim>\<open>givencrc\<close>. The pair holds the two local variables, \<open>None\<close> while unbound.
\<close>

type_synonym crc_vars = "bytes option \<times> string option"

fun crc_loop :: "bytes \<Rightarrow> nat list \<Rightarrow> crc_vars \<Rightarrow> error + crc_vars" where
  "crc_loop p1telegram [] vars = Inr vars"
| "crc_loop p1telegram (e # es) vars =
     (let p1contents = take (e + 1) p1telegram
      in bind_err (decode_ascii (drop (e + 1) p1telegram)) (\<lambda>s.
         bind_err (py_int16 (py_strip s)) (\<lambda>n.
         crc_loop p1telegram es (Some p1contents, Some (py_hex n)))))"

definition checkcrc :: "bytes \<Rightarrow> error + bool" where
  "checkcrc p1telegram =
     bind_err (crc_loop p1telegram (finditer 0 p1telegram) (None, None)) (\<lambda>(p1contents, givencrc).
       case p1contents of
         None \<Rightarrow> Inl UnboundLocalError
       | Some contents \<Rightarrow>
           (let calccrc = py_hex (uint (crc16 contents))
            in case givencrc of
                 None \<Rightarrow> Inl UnboundLocalError
               | Some given \<Rightarrow> if given \<noteq> calccrc then Inr False else Inr True))"

section \<open>The OBIS registry and \<^verbatim>\<open>parsetelegramline\<close>\<close>

text \<open>
  Python's \<^verbatim>\<open>float\<close> is not modelled bit by bit: the operations the program uses are
  the fields of \<open>float_ops\<close>, and every definition below takes them as the parameter
  \<open>F\<close>. \<open>float_of_str\<close> is \<^verbatim>\<open>float(s)\<close> (\<open>None\<close> when it raises \<^verbatim>\<open>ValueError\<close>),
  \<open>float_add\<close> is \<^verbatim>\<open>+\<close>, \<open>float_str\<close> is the text an f-string renders and
  \<open>float_of_int\<close> the conversion of an \<^verbatim>\<open>int\<close> operand of \<^verbatim>\<open>+\<close>. A theorem about all
  \<open>F\<close> holds for Python's floats in particular.
\<close>

record 'f float_ops =
  float_of_str :: "string \<Rightarrow> 'f option"
  float_add :: "'f \<Rightarrow> 'f \<Rightarrow> 'f"
  float_str :: "'f \<Rightarrow> string"
  float_of_int :: "int \<Rightarrow> 'f"

datatype 'f pyval = VStr string | VFloat 'f | VInt int

text \<open>The dictionary \<^verbatim>\<open>parsetelegramline\<close> returns; the empty dictionary is \<open>None\<close>.\<close>

record 'f row =
  row_desc :: string
  row_value :: "'f pyval"
  row_unit :: string

definition obiscodes :: "(string \<times> string) list" where
  "obiscodes =
    [(''0-0:1.0.0'', ''Timestamp''),
     (''0-0:96.3.10'', ''Switch electricity''),
     (''0-1:24.4.0'', ''Switch gas''),
     (''0-0:96.14.0'', ''Current rate (1=day,2=night)''),
     (''1-0:1.8.1'', ''Rate 1 (day) - total consumption''),
     (''1-0:1.8.2'', ''Rate 2 (night) - total consumption''),
     (''1-0:2.8.1'', ''Rate 1 (day) - total production''),
     (''1-0:2.8.2'', ''Rate 2 (night) - total production''),
     (''1-0:21.7.0'', ''L1 consumption''),
     (''1-0:41.7.0'', ''L2 consumption''),
     (''1-0:61.7.0'', ''L3 consumption''),
     (''1-0:1.7.0'', ''All phases consumption''),
     (''1-0:22.7.0'', ''L1 production''),
     (''1-0:42.7.0'', ''L2 production''),
     (''1-0:62.7.0'', ''L3 production''),
     (''1-0:2.7.0'', ''All phases production''),
     (''1-0:32.7.0'', ''L1 voltage''),
     (''1-0:52.7.0'', ''L2 voltage''),
     (''1-0:72.7.0'', ''L3 voltage''),
     (''1-0:31.7.0'', ''L1 current''),
     (''1-0:51.7.0'', ''L2 current''),
     (''1-0:71.7.0'', ''L3 current''),
     (''0-1:24.2.3'', ''Gas consumption''),
     (''0-1:24.2.1'', ''Gas consumption'')]"

text \<open>
  \<^verbatim>\<open>re.findall(r'\(.*?\)', p1line)\<close>. At an opening parenthesis the match runs to the
  nearest closing one, unless a newline (which \<^verbatim>\<open>.\<close> does not match) or the end of the
  line comes first; the search goes on behind a match, or one character further when
  there is none. \<open>match_group\<close> reads what follows the opening parenthesis and returns
  the text inside and the text behind the closing parenthesis.
\<close>

fun match_group :: "string \<Rightarrow> (string \<times> string) option" where
  "match_group [] = None"
| "match_group (c # cs) =
     (if c = CHR '')'' then Some ([], cs)
      else if c = LF then None
      else (case match_group cs of
              None \<Rightarrow> None
            | Some (inner, rest) \<Rightarrow> Some (c # inner, rest)))"

lemma match_group_shorter: "match_group cs = Some (inner, rest) \<Longrightarrow> length rest < length cs"
  by (induction cs arbitrary: inner rest) (auto split: if_splits option.splits)

function findall :: "string \<Rightarrow> string list" where
  "findall [] = []"
| "findall (c # cs) =
     (if c = CHR ''('' then
        (case match_group cs of
           None \<Rightarrow> findall cs
         | Some (inner, rest) \<Rightarrow> (CHR ''('' # inner @ '')'') # findall rest)
      else findall cs)"
  by pat_completeness auto
termination
  by (relation "measure length") (auto dest: match_group_shorter)

text \<open>\<^verbatim>\<open>s[1:-1]\<close>\<close>

definition slice_1_m1 :: "string \<Rightarrow> string" where
  "slice_1_m1 s = butlast (drop 1 s)"

text \<open>
  \<^verbatim>\<open>bytearray.fromhex(value)\<close>: two hex digits per byte, ASCII white space between
  bytes is skipped.
\<close>

fun fromhex :: "string \<Rightarrow> error + bytes" where
  "fromhex [] = Inr []"
| "fromhex (c # cs) =
     (if c_isspace c then fromhex cs
      else (case hexval c of
              None \<Rightarrow> Inl ValueError
            | Some hi \<Rightarrow>
                (case cs of
                   [] \<Rightarrow> Inl ValueError
                 | d # ds \<Rightarrow>
                     (case hexval d of
                        None \<Rightarrow> Inl ValueError
                      | Some lo \<Rightarrow>
                          bind_err (fromhex ds) (\<lambda>bs. Inr (char_of (16 * hi + lo) # bs))))))"

text \<open>
  \<^verbatim>\<open>.decode()\<close>: strict UTF-8. The decoded text is kept in its UTF-8 encoded form, which
  for ASCII bytes is the text itself.
\<close>

definition in_range :: "nat \<Rightarrow> nat \<Rightarrow> char \<Rightarrow> bool" where
  "in_range lo hi c = (lo \<le> (of_char c :: nat) \<and> (of_char c :: nat) \<le> hi)"

fun utf8_valid :: "bytes \<Rightarrow> bool" where
  "utf8_valid [] = True"
| "utf8_valid (a # r) =
     (if in_range 0x00 0x7F a then utf8_valid r
      else if in_range 0xC2 0xDF a then
        (case r of b # r' \<Rightarrow> in_range 0x80 0xBF b \<and> utf8_valid r' | _ \<Rightarrow> False)
      else if in_range 0xE0 0xEF a then
        (case r of
           b # c # r' \<Rightarrow>
             (if a = CHR 0xE0 then in_range 0xA0 0xBF b
              else if a = CHR 0xED then in_range 0x80 0x9F b
              else in_range 0x80 0xBF b)
             \<and> in_range 0x80 0xBF c \<and> utf8_valid r'
         | _ \<Rightarrow> False)
      else if in_range 0xF0 0xF4 a then
        (case r of
           b # c # d # r' \<Rightarrow>
             (if a = CHR 0xF0 then in_range 0x90 0xBF b
              else if a = CHR 0xF4 then in_range 0x80 0x8F b
              else in_range 0x80 0xBF b)
             \<and> in_range 0x80 0xBF c \<and> in_range 0x80 0xBF d \<and> utf8_valid r'
         | _ \<Rightarrow> False)
      else False)"

definition decode_utf8 :: "bytes \<Rightarrow> error + string" where
  "decode_utf8 b = (if utf8_valid b then Inr b else Inl UnicodeDecodeError)"

text \<open>
  \<^verbatim>\<open>parsetelegramline\<close> reads the global \<^verbatim>\<open>obiscodes\<close>; the registry is the first
  parameter of \<open>parsetelegramline_reg\<close>, and \<open>parsetelegramline\<close> is the function of
  the source, on the registry of the source.
\<close>

definition parsetelegramline_reg ::
  "(string \<times> string) list \<Rightarrow> 'f float_ops \<Rightarrow> string \<Rightarrow> error + 'f row option" where
  "parsetelegramline_reg reg F p1line =
     (let obis = hd (split_on (CHR ''('') p1line)
      in case map_of reg obis of
           None \<Rightarrow> Inr None
         | Some description \<Rightarrow>
             (case findall p1line of
                [] \<Rightarrow> Inl IndexError
              | v0 # vs \<Rightarrow>
                  (let val = (case vs of [] \<Rightarrow> slice_1_m1 v0 | v1 # _ \<Rightarrow> slice_1_m1 v1)
                   in if str_in ''96.1.1'' obis then
                        bind_err (fromhex val) (\<lambda>b.
                        bind_err (decode_utf8 b) (\<lambda>s.
                        Inr (Some \<lparr>row_desc = description, row_value = VStr s, row_unit = ''''\<rparr>)))
                      else if \<not> str_in ''1.0.0'' obis then
                        (let lvalue = split_on (CHR ''*'') val
                         in case float_of_str F (hd lvalue) of
                              None \<Rightarrow> Inl ValueError
                            | Some x \<Rightarrow>
                                Inr (Some \<lparr>row_desc = description, row_value = VFloat x,
                                           row_unit = (if length lvalue > 1 then lvalue ! 1 else '''')\<rparr>))
                      else Inr (Some \<lparr>row_desc = description, row_value = VStr val,
                                      row_unit = ''''\<rparr>))))"

definition parsetelegramline :: "'f float_ops \<Rightarrow> string \<Rightarrow> error + 'f row option" where
  "parsetelegramline = parsetelegramline_reg obiscodes"

section \<open>\<^verbatim>\<open>to_unixtime\<close>\<close>

subsection \<open>\<^verbatim>\<open>datetime.strptime(to_parse, '%y%m%d%H%M%S%z')\<close>\<close>

text \<open>
  \<^verbatim>\<open>strptime\<close> turns the format into a regular expression, one group per directive,
  and matches it at the start of the text. Each group is a list of alternatives tried in
  order, with backtracking; a parser below returns the matches of its group in that
  order, each with the text left behind it, so that the first element of the list for
  the whole format is the match the regular expression finds.
\<close>

definition is_digit :: "char \<Rightarrow> bool" where
  "is_digit c = in_range 48 57 c"

definition digit_val :: "char \<Rightarrow> nat" where
  "digit_val c = of_char c - 48"

text \<open>Two digits, the first in \<open>a1..a2\<close>, the second in \<open>b1..b2\<close>; one digit in \<open>lo..hi\<close>.\<close>

definition two_digits :: "nat \<Rightarrow> nat \<Rightarrow> nat \<Rightarrow> nat \<Rightarrow> string \<Rightarrow> (nat \<times> string) list" where
  "two_digits a1 a2 b1 b2 s =
     (case s of
        a # b # r \<Rightarrow>
          if in_range (48 + a1) (48 + a2) a \<and> in_range (48 + b1) (48 + b2) b
          then [(10 * digit_val a + digit_val b, r)] else []
      | _ \<Rightarrow> [])"

definition one_digit :: "nat \<Rightarrow> nat \<Rightarrow> string \<Rightarrow> (nat \<times> string) list" where
  "one_digit lo hi s =
     (case s of
        a # r \<Rightarrow> if in_range (48 + lo) (48 + hi) a then [(digit_val a, r)] else []
      | [] \<Rightarrow> [])"

definition space_digit :: "string \<Rightarrow> (nat \<times> string) list" where
  "space_digit s =
     (case s of
        a # b # r \<Rightarrow> if a = CHR '' '' \<and> in_range 49 57 b then [(digit_val b, r)] else []
      | _ \<Rightarrow> [])"

text \<open>
  \<^verbatim>\<open>%y\<close> is \<^verbatim>\<open>\d\d\<close>; \<^verbatim>\<open>%m\<close> is \<^verbatim>\<open>1[0-2]|0[1-9]|[1-9]\<close>;
  \<^verbatim>\<open>%d\<close> is \<^verbatim>\<open>3[0-1]|[1-2]\d|0[1-9]|[1-9]| [1-9]\<close>; \<^verbatim>\<open>%H\<close> is \<^verbatim>\<open>2[0-3]|[0-1]\d|\d\<close>;
  \<^verbatim>\<open>%M\<close> is \<^verbatim>\<open>[0-5]\d|\d\<close>; \<^verbatim>\<open>%S\<close> is \<^verbatim>\<open>6[0-1]|[0-5]\d|\d\<close>.
\<close>

definition re_y :: "string \<Rightarrow> (nat \<times> string) list" where
  "re_y s = two_digits 0 9 0 9 s"

definition re_m :: "string \<Rightarrow> (nat \<times> string) list" where
  "re_m s = two_digits 1 1 0 2 s @ two_digits 0 0 1 9 s @ one_digit 1 9 s"

definition re_d :: "string \<Rightarrow> (nat \<times> string) list" where
  "re_d s = two_digits 3 3 0 1 s @ two_digits 1 2 0 9 s @ two_digits 0 0 1 9 s
            @ one_digit 1 9 s @ space_digit s"

definition re_H :: "string \<Rightarrow> (nat \<times> string) list" where
  "re_H s = two_digits 2 2 0 3 s @ two_digits 0 1 0 9 s @ one_digit 0 9 s"

definition re_M :: "string \<Rightarrow> (nat \<times> string) list" where
  "re_M s = two_digits 0 5 0 9 s @ one_digit 0 9 s"

definition re_S :: "string \<Rightarrow> (nat \<times> string) list" where
  "re_S s = two_digits 6 6 0 1 s @ two_digits 0 5 0 9 s @ one_digit 0 9 s"

text \<open>
  \<^verbatim>\<open>%z\<close> is \<^verbatim>\<open>[+-]\d\d:?[0-5]\d(:?[0-5]\d(\.\d{1,6})?)?|Z\<close>. It is the last group of the
  format, so only its first (longest) match is ever used; \<open>re_z\<close> returns that one,
  as the matched text and the text left.
\<close>

definition colon_two :: "string \<Rightarrow> (string \<times> string) option" where
  "colon_two r =
     (let two = (\<lambda>t. case t of
                        a # b # t' \<Rightarrow> if in_range 48 53 a \<and> is_digit b then Some ([a, b], t') else None
                      | _ \<Rightarrow> None)
      in case r of
           c # t \<Rightarrow> if c = CHR '':'' then map_option (\<lambda>(m, t'). (c # m, t')) (two t) else two r
         | [] \<Rightarrow> None)"

definition opt_fraction :: "string \<Rightarrow> string \<times> string" where
  "opt_fraction r =
     (case r of
        c # t \<Rightarrow>
          (let ds = takeWhile is_digit (take 6 t)
           in if c = CHR ''.'' \<and> ds \<noteq> [] then (c # ds, drop (length ds) t) else ([], r))
      | [] \<Rightarrow> ([], r))"

definition re_z :: "string \<Rightarrow> (string \<times> string) list" where
  "re_z s =
     (let alt_Z = (case s of c # r \<Rightarrow> if c = CHR ''Z'' then [([c], r)] else [] | [] \<Rightarrow> [])
      in case s of
           sg # h1 # h2 # r \<Rightarrow>
             if (sg = CHR ''+'' \<or> sg = CHR ''-'') \<and> is_digit h1 \<and> is_digit h2 then
               (case colon_two r of
                  None \<Rightarrow> alt_Z
                | Some (mins, r1) \<Rightarrow>
                    (case colon_two r1 of
                       None \<Rightarrow> [(sg # h1 # h2 # mins, r1)]
                     | Some (secs, r2) \<Rightarrow>
                         (let (frac, r3) = opt_fraction r2
                          in [(sg # h1 # h2 # mins @ secs @ frac, r3)])))
             else alt_Z
         | _ \<Rightarrow> alt_Z)"

text \<open>All matches of the six numeric groups and of \<^verbatim>\<open>%z\<close>, in the order of the search.\<close>

definition format_matches ::
  "string \<Rightarrow> ((nat \<times> nat \<times> nat \<times> nat \<times> nat \<times> nat \<times> string) \<times> string) list" where
  "format_matches s =
     [((y, m, d, H, M, S, z), r7).
        (y, r1) \<leftarrow> re_y s, (m, r2) \<leftarrow> re_m r1, (d, r3) \<leftarrow> re_d r2, (H, r4) \<leftarrow> re_H r3,
        (M, r5) \<leftarrow> re_M r4, (S, r6) \<leftarrow> re_S r5, (z, r7) \<leftarrow> re_z r6]"

text \<open>
  The offset of the matched \<^verbatim>\<open>%z\<close> text, in seconds and microseconds, as
  \<^verbatim>\<open>_strptime\<close> computes it: it removes the colons (raising on an inconsistent use of
  them) and reads hours, minutes, seconds and the fraction with \<^verbatim>\<open>int\<close>.
  \<open>dec_nat\<close> is \<^verbatim>\<open>int\<close> on the texts that can stand there: digits, colons and dots.
\<close>

definition dec_nat :: "string \<Rightarrow> error + nat" where
  "dec_nat s =
     (if s \<noteq> [] \<and> list_all is_digit s
      then Inr (foldl (\<lambda>acc c. 10 * acc + digit_val c) 0 s) else Inl ValueError)"

definition tz_offset :: "string \<Rightarrow> error + int \<times> int" where
  "tz_offset z0 =
     (if z0 = ''Z'' then Inr (0, 0)
      else
        bind_err
          (if z0 ! 3 = CHR '':'' then
             (let z = take 3 z0 @ drop 4 z0
              in if length z > 5 then
                   (if z ! 5 \<noteq> CHR '':'' then Inl ValueError else Inr (take 5 z @ drop 6 z))
                 else Inr z)
           else Inr z0) (\<lambda>z.
        bind_err (dec_nat (take 2 (drop 1 z))) (\<lambda>hours.
        bind_err (dec_nat (take 2 (drop 3 z))) (\<lambda>minutes.
        bind_err (if take 2 (drop 5 z) = [] then Inr 0 else dec_nat (take 2 (drop 5 z))) (\<lambda>seconds.
        bind_err (dec_nat (drop 8 z @ replicate (6 - length (drop 8 z)) (CHR ''0''))) (\<lambda>fraction.
        let gmtoff = int (hours * 3600 + minutes * 60 + seconds)
        in Inr (if take 1 z = ''-'' then (- gmtoff, - int fraction) else (gmtoff, int fraction))))))))"

text \<open>The aware \<^verbatim>\<open>datetime\<close> that \<^verbatim>\<open>strptime\<close> returns.\<close>

record datetime =
  dt_year :: nat
  dt_month :: nat
  dt_day :: nat
  dt_hour :: nat
  dt_minute :: nat
  dt_second :: nat
  dt_offset_s :: int
  dt_offset_us :: int

definition is_leap :: "nat \<Rightarrow> bool" where
  "is_leap y = (y mod 4 = 0 \<and> (if y mod 100 = 0 then y mod 400 = 0 else True))"

definition days_in_month :: "nat \<Rightarrow> nat \<Rightarrow> nat" where
  "days_in_month y m =
     (if m = 2 then (if is_leap y then 29 else 28)
      else if m = 4 \<or> m = 6 \<or> m = 9 \<or> m = 11 then 30 else 31)"

text \<open>
  A two-digit year up to 68 is in the 2000s, from 69 on in the 1900s. The constructor
  of \<^verbatim>\<open>datetime\<close> refuses a day the month does not have and a second above 59; that
  of \<^verbatim>\<open>timezone\<close> refuses an offset of 24 hours or more.
\<close>

definition strptime :: "string \<Rightarrow> error + datetime" where
  "strptime to_parse =
     (case format_matches to_parse of
        [] \<Rightarrow> Inl ValueError
      | ((y, m, d, H, M, S, z), unconverted) # _ \<Rightarrow>
          if unconverted \<noteq> [] then Inl ValueError
          else
            (let year = (if y \<le> 68 then y + 2000 else y + 1900)
             in bind_err (tz_offset z) (\<lambda>(off_s, off_us).
                if d > days_in_month year m \<or> S > 59 then Inl ValueError
                else if \<bar>off_s * 1000000 + off_us\<bar> \<ge> 86400 * 1000000 then Inl ValueError
                else Inr \<lparr>dt_year = year, dt_month = m, dt_day = d, dt_hour = H,
                          dt_minute = M, dt_second = S,
                          dt_offset_s = off_s, dt_offset_us = off_us\<rparr>)))"

subsection \<open>\<^verbatim>\<open>int(unixtime.timestamp())\<close>\<close>

text \<open>
  The proleptic Gregorian ordinal of a date as \<^verbatim>\<open>datetime\<close> counts it (day 1 is
  0001-01-01; 1970-01-01 is day 719163). The timestamp of an aware \<^verbatim>\<open>datetime\<close> is
  the time since the epoch with the offset taken off; \<^verbatim>\<open>int\<close> truncates towards zero.
\<close>

definition days_before_year :: "nat \<Rightarrow> nat" where
  "days_before_year y = (y - 1) * 365 + (y - 1) div 4 - (y - 1) div 100 + (y - 1) div 400"

definition days_before_month :: "nat \<Rightarrow> nat \<Rightarrow> nat" where
  "days_before_month y m = sum_list (map (days_in_month y) [1..<m])"

definition ymd2ord :: "nat \<Rightarrow> nat \<Rightarrow> nat \<Rightarrow> nat" where
  "ymd2ord y m d = days_before_year y + days_before_month y m + d"

definition timestamp_int :: "datetime \<Rightarrow> int" where
  "timestamp_int dt =
     (let local_s = (int (ymd2ord (dt_year dt) (dt_month dt) (dt_day dt)) - 719163) * 86400
                    + int (dt_hour dt * 3600 + dt_minute dt * 60 + dt_second dt);
          us = (local_s - dt_offset_s dt) * 1000000 - dt_offset_us dt
      in if us < 0 then - ((- us) div 1000000) else us div 1000000)"

subsection \<open>The function\<close>

text \<open>
  The \<^verbatim>\<open>else\<close> branch prints an f-string that reads \<^verbatim>\<open>lastChar\<close>; the variable bound
  above is \<^verbatim>\<open>last_char\<close>, and no \<^verbatim>\<open>lastChar\<close> exists in the function or the module:
  evaluating the f-string raises \<^verbatim>\<open>NameError\<close>.
\<close>

definition to_unixtime :: "string \<Rightarrow> error + int" where
  "to_unixtime p1time =
     (case rev p1time of
        [] \<Rightarrow> Inl IndexError
      | last_char # _ \<Rightarrow>
          bind_err
            (if last_char = CHR ''W'' then Inr ''+0100''
             else if last_char = CHR ''S'' then Inr ''+0200''
             else Inl NameError) (\<lambda>offset.
          let to_parse = butlast p1time @ offset
          in bind_err (strptime to_parse) (\<lambda>unixtime.
             Inr (timestamp_int unixtime))))"

section \<open>\<^verbatim>\<open>main\<close>: the acquisition loop\<close>

text \<open>
  A \<^verbatim>\<open>dict\<close> keeps its keys in the order of their first insertion; assigning to a key
  that is present replaces the value in place. That is \<open>AList.update\<close> on an
  association list.
\<close>

type_synonym 'f pydict = "(string \<times> 'f pyval) list"

definition getitem :: "'f pydict \<Rightarrow> string \<Rightarrow> error + 'f pyval" where
  "getitem d k = (case map_of d k of None \<Rightarrow> Inl KeyError | Some v \<Rightarrow> Inr v)"

text \<open>\<^verbatim>\<open>v[0:6]\<close>, \<^verbatim>\<open>a + b\<close> and the text an f-string renders, on the values at hand.\<close>

definition slice_0_6 :: "'f pyval \<Rightarrow> error + string" where
  "slice_0_6 v = (case v of VStr s \<Rightarrow> Inr (take 6 s) | _ \<Rightarrow> Inl TypeError)"

fun py_add :: "'f float_ops \<Rightarrow> 'f pyval \<Rightarrow> 'f pyval \<Rightarrow> error + 'f pyval" where
  "py_add F (VFloat a) (VFloat b) = Inr (VFloat (float_add F a b))"
| "py_add F (VStr a) (VStr b) = Inr (VStr (a @ b))"
| "py_add F (VInt a) (VInt b) = Inr (VInt (a + b))"
| "py_add F (VInt a) (VFloat b) = Inr (VFloat (float_add F (float_of_int F a) b))"
| "py_add F (VFloat a) (VInt b) = Inr (VFloat (float_add F a (float_of_int F b)))"
| "py_add F _ _ = Inl TypeError"

function decdigits :: "nat \<Rightarrow> string" where
  "decdigits n =
     (if n < 10 then [char_of (48 + n)] else decdigits (n div 10) @ [char_of (48 + n mod 10)])"
  by pat_completeness auto
termination
  by (relation "measure id") auto

declare decdigits.simps [simp del]

definition str_int :: "int \<Rightarrow> string" where
  "str_int n = (if n < 0 then ''-'' @ decdigits (nat (- n)) else decdigits (nat n))"

definition py_str :: "'f float_ops \<Rightarrow> 'f pyval \<Rightarrow> string" where
  "py_str F v = (case v of VStr s \<Rightarrow> s | VFloat x \<Rightarrow> float_str F x | VInt n \<Rightarrow> str_int n)"

definition to_unixtime_val :: "'f pyval \<Rightarrow> error + int" where
  "to_unixtime_val v = (case v of VStr s \<Rightarrow> to_unixtime s | _ \<Rightarrow> Inl TypeError)"

subsection \<open>\<^verbatim>\<open>write_csv\<close>\<close>

text \<open>
  The file system holds the files with their lines, and what the environment answers
  when a file is opened for appending: \<open>open_error fs filename\<close> is the exception
  that the operating system raises for this name (\<^verbatim>\<open>FileNotFoundError\<close> when a directory
  of the path is missing, as for a missing \<^verbatim>\<open>data/\<close> or a name with a further \<^verbatim>\<open>/\<close>,
  \<^verbatim>\<open>PermissionError\<close>, \<^verbatim>\<open>IsADirectoryError\<close>: all of them \<^verbatim>\<open>OSError\<close>), if it raises
  one. A name that holds a NUL character is refused by \<^verbatim>\<open>open\<close> itself with
  \<^verbatim>\<open>ValueError\<close>, whatever the environment. \<^verbatim>\<open>os.path.isfile\<close> does not raise.
\<close>

datatype 'f csvline = Header "string list" | Row "'f pyval list"

record 'f filesystem =
  contents :: "(string \<times> 'f csvline list) list"
  open_error :: "string \<Rightarrow> error option"

definition empty_fs :: "'f filesystem" where
  "empty_fs = \<lparr>contents = [], open_error = (\<lambda>filename. None)\<rparr>"

definition open_append :: "string \<Rightarrow> 'f filesystem \<Rightarrow> error option" where
  "open_append filename fs =
     (if CHR 0x00 \<in> set filename then Some ValueError else open_error fs filename)"

text \<open>
  What the body of the \<^verbatim>\<open>with\<close> writes: one row of the dictionary's values, behind a
  header of its keys when the file is new.
\<close>

definition append_row ::
  "string \<Rightarrow> 'f pydict \<Rightarrow> (string \<times> 'f csvline list) list \<Rightarrow> (string \<times> 'f csvline list) list" where
  "append_row filename row_data cs =
     (case map_of cs filename of
        None \<Rightarrow> cs @ [(filename, [Header (map fst row_data), Row (map snd row_data)])]
      | Some ls \<Rightarrow> AList.update filename (ls @ [Row (map snd row_data)]) cs)"

text \<open>
  \<^verbatim>\<open>write_csv\<close> raises what \<^verbatim>\<open>open\<close> raises, and then nothing is written. Writing to
  a file that was opened is taken to succeed.
\<close>

definition write_csv :: "string \<Rightarrow> 'f pydict \<Rightarrow> 'f filesystem \<Rightarrow> error + 'f filesystem" where
  "write_csv filename row_data fs =
     (case open_append filename fs of
        Some e \<Rightarrow> Inl e
      | None \<Rightarrow> Inr (fs\<lparr>contents := append_row filename row_data (contents fs)\<rparr>))"

subsection \<open>One telegram\<close>

text \<open>\<^verbatim>\<open>p1telegram.split(b'\r\n')\<close>\<close>

fun split_crlf :: "bytes \<Rightarrow> bytes list" where
  "split_crlf (a # b # r) =
     (if a = CR \<and> b = LF then [] # split_crlf r
      else (case split_crlf (b # r) of [] \<Rightarrow> [[a]] | p # ps \<Rightarrow> (a # p) # ps))"
| "split_crlf s = [s]"

text \<open>
  The \<^verbatim>\<open>for line in ...\<close> loop that fills \<^verbatim>\<open>output\<close>: a line whose code is not in
  the registry is skipped, any other stores its value under its description.
\<close>

fun parse_lines :: "'f float_ops \<Rightarrow> bytes list \<Rightarrow> 'f pydict \<Rightarrow> error + 'f pydict" where
  "parse_lines F [] output = Inr output"
| "parse_lines F (line # ls) output =
     bind_err (decode_ascii line) (\<lambda>text.
     bind_err (parsetelegramline F text) (\<lambda>row.
     parse_lines F ls
       (case row of
          None \<Rightarrow> output
        | Some r \<Rightarrow> AList.update (row_desc r) (row_value r) output)))"

text \<open>
  The state of the program: the local \<^verbatim>\<open>p1telegram\<close>, the global \<^verbatim>\<open>latest_data\<close>,
  the CSV files and whether the serial port is open.
\<close>

record 'f state =
  p1telegram :: bytes
  latest_data :: string
  files :: "'f filesystem"
  ser_open :: bool

text \<open>
  What follows the loop in the body of \<^verbatim>\<open>if checkcrc(p1telegram):\<close>, from the first
  read of \<^verbatim>\<open>output['Timestamp']\<close> on, in the order of the source. The first
  \<^verbatim>\<open>write_csv\<close> comes before the timestamp is converted and the rates are read, so an
  exception raised by those leaves the first row written. An exception raised by a
  \<^verbatim>\<open>write_csv\<close> ends the processing like any other. The result is the state reached and
  the exception, if one was raised.
\<close>

definition json_text :: "string \<Rightarrow> string \<Rightarrow> string \<Rightarrow> string" where
  \<open>json_text ts c p = ''{"ts":"'' @ ts @ ''","c":"'' @ c @ ''","p":"'' @ p @ ''"}''\<close>

definition publish :: "'f float_ops \<Rightarrow> 'f pydict \<Rightarrow> 'f state \<Rightarrow> 'f state \<times> error option" where
  "publish F output st =
     (case bind_err (getitem output ''Timestamp'') slice_0_6 of
        Inl e \<Rightarrow> (st, Some e)
      | Inr date \<Rightarrow>
          (case write_csv (''data/'' @ date @ ''.csv'') output (files st) of
             Inl e \<Rightarrow> (st, Some e)
           | Inr fs1 \<Rightarrow>
               (let st1 = st\<lparr>files := fs1\<rparr>
                in case
                     bind_err (getitem output ''Timestamp'') (\<lambda>ts.
                     bind_err (to_unixtime_val ts) (\<lambda>timestamp.
                     bind_err (getitem output ''Rate 1 (day) - total consumption'') (\<lambda>c1.
                     bind_err (getitem output ''Rate 2 (night) - total consumption'') (\<lambda>c2.
                     bind_err (py_add F c1 c2) (\<lambda>consumption.
                     bind_err (getitem output ''Rate 1 (day) - total production'') (\<lambda>p1.
                     bind_err (getitem output ''Rate 2 (night) - total production'') (\<lambda>p2.
                     bind_err (py_add F p1 p2) (\<lambda>production.
                     Inr (timestamp, consumption, production)))))))))
                   of
                     Inl e \<Rightarrow> (st1, Some e)
                   | Inr (timestamp, consumption, production) \<Rightarrow>
                       (let short = [(''timestamp'', VInt timestamp),
                                     (''Total consumption'', consumption),
                                     (''Total production'', production)]
                        in case write_csv (''data/'' @ date @ ''_summed.csv'') short (files st1) of
                             Inl e \<Rightarrow> (st1, Some e)
                           | Inr fs2 \<Rightarrow>
                               (let st2 = st1\<lparr>files := fs2\<rparr>;
                                    json = json_text (str_int timestamp) (py_str F consumption)
                                             (py_str F production)
                                in (st2\<lparr>latest_data := json\<rparr>, None))))))"

definition process_telegram :: "'f float_ops \<Rightarrow> 'f state \<Rightarrow> 'f state \<times> error option" where
  "process_telegram F st =
     (case parse_lines F (split_crlf (p1telegram st)) [] of
        Inl e \<Rightarrow> (st, Some e)
      | Inr output \<Rightarrow> publish F output st)"

subsection \<open>One turn of \<^verbatim>\<open>while True\<close>\<close>

text \<open>
  \<open>try_body\<close> is the body of the \<^verbatim>\<open>try\<close> for the line that \<^verbatim>\<open>ser.readline()\<close>
  returned: the state it reaches and the exception it raised, if any. What was assigned
  before an exception stays assigned. \<open>main_iteration\<close> adds the bare \<^verbatim>\<open>except\<close>, which
  closes the serial port.
\<close>

definition try_body :: "'f float_ops \<Rightarrow> 'f state \<Rightarrow> bytes \<Rightarrow> 'f state \<times> error option" where
  "try_body F st p1line =
     (case decode_ascii p1line of
        Inl e \<Rightarrow> (st, Some e)
      | Inr text \<Rightarrow>
          (let st1 = st\<lparr>p1telegram := (if CHR ''/'' \<in> set text then [] else p1telegram st) @ p1line\<rparr>
           in if CHR ''!'' \<in> set text then
                (case checkcrc (p1telegram st1) of
                   Inl e \<Rightarrow> (st1, Some e)
                 | Inr ok \<Rightarrow> if ok then process_telegram F st1 else (st1, None))
              else (st1, None)))"

definition main_iteration :: "'f float_ops \<Rightarrow> 'f state \<Rightarrow> bytes \<Rightarrow> 'f state" where
  "main_iteration F st p1line =
     (case try_body F st p1line of
        (st', None) \<Rightarrow> st'
      | (st', Some e) \<Rightarrow> st'\<lparr>ser_open := False\<rparr>)"

text \<open>
  The loop over the lines the serial port delivers. The \<^verbatim>\<open>except\<close> branch closes the
  port, and the loop goes on to \<^verbatim>\<open>ser.flush()\<close> and \<^verbatim>\<open>ser.readline()\<close> on the closed
  port, which deliver no further line: the model stops there.
\<close>

fun main_loop :: "'f float_ops \<Rightarrow> 'f state \<Rightarrow> bytes list \<Rightarrow> 'f state" where
  "main_loop F st [] = st"
| "main_loop F st (p1line # ls) =
     (let st' = main_iteration F st p1line
      in if ser_open st' then main_loop F st' ls else st')"

definition initial_state :: "'f filesystem \<Rightarrow> 'f state" where
  "initial_state fs = \<lparr>p1telegram = [], latest_data = '''', files = fs, ser_open = True\<rparr>"

section \<open>\<^verbatim>\<open>Handler.do_GET\<close>\<close>

text \<open>
  A request whose path contains \<^verbatim>\<open>?live\<close> is answered with \<^verbatim>\<open>latest_data\<close>; any other
  is handed to \<^verbatim>\<open>SimpleHTTPRequestHandler.do_GET\<close>.
\<close>

record response =
  status :: nat
  headers :: "(string \<times> string) list"
  body :: bytes

datatype http_result = Live response | Static string

definition do_GET :: "string \<Rightarrow> string \<Rightarrow> http_result" where
  "do_GET path latest =
     (if str_in ''?live'' path
      then Live \<lparr>status = 200, headers = [(''Content-type'', ''application/json'')], body = latest\<rparr>
      else Static path)"

section \<open>A decimal stand-in for the floats\<close>

text \<open>
  To run the model on a concrete telegram the float operations must be given. \<open>dec_ops\<close>
  reads unsigned decimal numerals (\<^verbatim>\<open>1.5\<close>, \<^verbatim>\<open>000.000\<close>) as exact decimals, a mantissa
  and a number of decimal places, adds them exactly and prints them the way Python
  prints a float. On numerals with a short binary expansion, as in the telegrams below,
  Python's floats give the same results. The theorems that hold for every \<open>F\<close> do not
  depend on it.
\<close>

type_synonym dec = "nat \<times> nat"

definition dec_of_str :: "string \<Rightarrow> dec option" where
  "dec_of_str s =
     (case split_on (CHR ''.'') s of
        [ip] \<Rightarrow> (case dec_nat ip of Inr n \<Rightarrow> Some (n, 0) | Inl e \<Rightarrow> None)
      | [ip, fp] \<Rightarrow>
          (case (dec_nat ip, dec_nat fp, dec_nat (ip @ fp)) of
             (Inr i, Inr f, Inr n) \<Rightarrow> Some (n, length fp)
           | _ \<Rightarrow> None)
      | _ \<Rightarrow> None)"

definition dec_add :: "dec \<Rightarrow> dec \<Rightarrow> dec" where
  "dec_add a b =
     (let s = max (snd a) (snd b)
      in (fst a * 10 ^ (s - snd a) + fst b * 10 ^ (s - snd b), s))"

definition dec_str :: "dec \<Rightarrow> string" where
  "dec_str a =
     (let ip = fst a div 10 ^ snd a;
          fp = decdigits (fst a mod 10 ^ snd a);
          padded = replicate (snd a - length fp) (CHR ''0'') @ fp;
          stripped = rev (dropWhile (\<lambda>c. c = CHR ''0'') (rev padded))
      in decdigits ip @ ''.'' @ (if snd a = 0 \<or> stripped = [] then ''0'' else stripped))"

definition dec_ops :: "dec float_ops" where
  "dec_ops = \<lparr>float_of_str = dec_of_str, float_add = dec_add, float_str = dec_str,
              float_of_int = (\<lambda>n. (nat n, 0))\<rparr>"

text \<open>
  A complete telegram, as the lines \<^verbatim>\<open>ser.readline()\<close> returns: the start line, the
  timestamp, the four rate fields and the end line with the checksum of what precedes
  it. \<open>tg_body\<close> is everything before the end line.
\<close>

definition tg_lines :: "bytes list" where
  "tg_lines =
     [''/FLU5'' @ [CR, LF],
      ''0-0:1.0.0(230615123045S)'' @ [CR, LF],
      ''1-0:1.8.1(1.5*kWh)'' @ [CR, LF],
      ''1-0:1.8.2(2.25*kWh)'' @ [CR, LF],
      ''1-0:2.8.1(0.5*kWh)'' @ [CR, LF],
      ''1-0:2.8.2(0.25*kWh)'' @ [CR, LF]]"

definition tg_body :: bytes where
  "tg_body = concat tg_lines"

text \<open>
  The record the loop builds from the sample telegram, and the state in which the loop
  stands when the six lines of \<open>tg_lines\<close> have been read and the end line is due.
\<close>

definition tg_record :: "dec pydict" where
  "tg_record =
     [(''Timestamp'', VStr ''230615123045S''),
      (''Rate 1 (day) - total consumption'', VFloat (15, 1)),
      (''Rate 2 (night) - total consumption'', VFloat (225, 2)),
      (''Rate 1 (day) - total production'', VFloat (5, 1)),
      (''Rate 2 (night) - total production'', VFloat (25, 2))]"

definition tg_state :: "bytes \<Rightarrow> dec state" where
  "tg_state buf = \<lparr>p1telegram = buf, latest_data = '''', files = empty_fs, ser_open = True\<rparr>"

definition tg_json :: string where
  \<open>tg_json = ''{"ts":"1686825045","c":"3.75","p":"0.75"}''\<close>

definition tg_files :: "dec filesystem" where
  "tg_files =
     \<lparr>contents =
        [(''data/230615.csv'', [Header (map fst tg_record), Row (map snd tg_record)]),
         (''data/230615_summed.csv'',
            [Header [''timestamp'', ''Total consumption'', ''Total production''],
             Row [VInt 1686825045, VFloat (375, 2), VFloat (75, 2)]])],
      open_error = (\<lambda>filename. None)\<rparr>"

text \<open>
  An environment without the directory \<^verbatim>\<open>data/\<close>: every \<^verbatim>\<open>open\<close> for appending raises
  \<^verbatim>\<open>FileNotFoundError\<close>.
\<close>

definition tg_nodir :: "dec filesystem" where
  "tg_nodir = \<lparr>contents = [], open_error = (\<lambda>filename. Some OSError)\<rparr>"

text \<open>
  An environment in which \<^verbatim>\<open>data/\<close> exists and has no subdirectory: \<^verbatim>\<open>open\<close> raises
  \<^verbatim>\<open>FileNotFoundError\<close> for a name with a \<^verbatim>\<open>/\<close> behind \<^verbatim>\<open>data/\<close>, and for no other.
\<close>

definition tg_flat :: "dec filesystem" where
  "tg_flat =
     \<lparr>contents = [],
      open_error = (\<lambda>filename. if CHR ''/'' \<in> set (drop 5 filename) then Some OSError else None)\<rparr>"

section \<open>\<^verbatim>\<open>checkcrc\<close> as the specification words it\<close>

text \<open>
  The specification's checksum rule, for comparison with \<open>checkcrc\<close>: split at the
  \<^emph>\<open>first\<close> \<^verbatim>\<open>\r\n!\<close>; the content runs up to and including the \<^verbatim>\<open>!\<close>, the rest is the
  checksum text; the verdict is the equality of two numbers. \<open>find_sep\<close> is the offset
  of the first \<^verbatim>\<open>\r\n!\<close>. Without a separator the specification names no verdict; the
  definition gives the exception of the source there.
\<close>

fun find_sep :: "nat \<Rightarrow> bytes \<Rightarrow> nat option" where
  "find_sep i (a # b # c # rest) =
     (if a = CR \<and> b = LF \<and> c = CHR ''!'' then Some i else find_sep (i + 1) (b # c # rest))"
| "find_sep i _ = None"

definition checkcrc_spec :: "bytes \<Rightarrow> error + bool" where
  "checkcrc_spec t =
     (case find_sep 0 t of
        None \<Rightarrow> Inl UnboundLocalError
      | Some i \<Rightarrow>
          bind_err (decode_ascii (drop (i + 3) t)) (\<lambda>s.
          bind_err (py_int16 (py_strip s)) (\<lambda>given.
          Inr (given = uint (crc16 (take (i + 3) t))))))"

section \<open>Auxiliary notions of the proofs\<close>

text \<open>The value of a string of hex digits, the inverse of \<open>hexdigits\<close>.\<close>

definition unhex :: "string \<Rightarrow> nat" where
  "unhex s = foldl (\<lambda>acc c. 16 * acc + the (hexval c)) 0 s"

text \<open>
  \<open>writes F k l\<close>: the line \<open>l\<close> of a telegram decodes to a measurement with the
  description \<open>k\<close>, so that the loop stores its value under \<open>k\<close>.
\<close>

definition writes :: "'f float_ops \<Rightarrow> string \<Rightarrow> bytes \<Rightarrow> bool" where
  "writes F k l =
     (case decode_ascii l of
        Inl e \<Rightarrow> False
      | Inr t \<Rightarrow> (case parsetelegramline F t of
                    Inr (Some r) \<Rightarrow> row_desc r = k
                  | _ \<Rightarrow> False))"

section \<open>Properties of \<^verbatim>\<open>checkcrc\<close>\<close>

subsection \<open>\<^verbatim>\<open>hex\<close> is one-to-one\<close>

lemma hexval_hexdigit: "d < 16 \<Longrightarrow> hexval (hexdigit d) = Some d"
proof -
  assume "d < 16"
  then have "d = 0 \<or> d = 1 \<or> d = 2 \<or> d = 3 \<or> d = 4 \<or> d = 5 \<or> d = 6 \<or> d = 7 \<or> d = 8
             \<or> d = 9 \<or> d = 10 \<or> d = 11 \<or> d = 12 \<or> d = 13 \<or> d = 14 \<or> d = 15"
    by arith
  then show ?thesis
    by (elim disjE) (simp_all add: hexdigit_def hexval_def)
qed

lemma unhex_hexdigits: "unhex (hexdigits n) = n"
proof (induction n rule: hexdigits.induct)
  case (1 n)
  show ?case
  proof (cases "n < 16")
    case True
    then show ?thesis
      by (subst hexdigits.simps) (simp add: unhex_def hexval_hexdigit)
  next
    case False
    then have "unhex (hexdigits (n div 16)) = n div 16"
      using "1" by simp
    then show ?thesis
      using False
      by (subst hexdigits.simps) (simp add: unhex_def hexval_hexdigit)
  qed
qed

lemma hexdigits_inj: "hexdigits m = hexdigits n \<Longrightarrow> m = n"
  by (metis unhex_hexdigits)

lemma py_hex_inj: "py_hex a = py_hex b \<longleftrightarrow> a = b"
proof
  assume eq: "py_hex a = py_hex b"
  show "a = b"
  proof (cases "a < 0")
    case True
    then have "b < 0"
      using eq by (auto simp: py_hex_def split: if_splits)
    then have "nat (- a) = nat (- b)"
      using eq True by (auto simp: py_hex_def dest: hexdigits_inj)
    then show ?thesis
      using True \<open>b < 0\<close> by simp
  next
    case False
    then have "\<not> b < 0"
      using eq by (auto simp: py_hex_def split: if_splits)
    then have "nat a = nat b"
      using eq False by (auto simp: py_hex_def dest: hexdigits_inj)
    then show ?thesis
      using False \<open>\<not> b < 0\<close> by simp
  qed
qed simp

subsection \<open>The matches of the separator\<close>

lemma finditer_elems:
  "e \<in> set (finditer i t) \<Longrightarrow> i + 2 \<le> e \<and> e < i + length t \<and> t ! (e - i) = CHR ''!''"
proof (induction i t rule: finditer.induct)
  case (1 i a b c rest)
  show ?case
  proof (cases "a = CR \<and> b = LF \<and> c = CHR ''!''")
    case True
    with "1.prems" have "e = i + 2 \<or> e \<in> set (finditer (i + 2) (c # rest))"
      by simp
    then show ?thesis
    proof
      assume "e = i + 2"
      with True show ?thesis by simp
    next
      assume "e \<in> set (finditer (i + 2) (c # rest))"
      with "1.IH"(1) True
      have h: "i + 2 + 2 \<le> e \<and> e < i + 2 + length (c # rest) \<and> (c # rest) ! (e - (i + 2)) = CHR ''!''"
        by blast
      moreover from h have "e - i = Suc (Suc (e - (i + 2)))"
        by arith
      ultimately show ?thesis by simp
    qed
  next
    case False
    with "1.prems" have "e \<in> set (finditer (i + 1) (b # c # rest))"
      by auto
    with "1.IH"(2) False
    have h: "i + 1 + 2 \<le> e \<and> e < i + 1 + length (b # c # rest) \<and> (b # c # rest) ! (e - (i + 1)) = CHR ''!''"
      by blast
    moreover from h have "e - i = Suc (e - (i + 1))"
      by arith
    ultimately show ?thesis by simp
  qed
qed simp_all

lemma finditer_find_sep_None: "find_sep i t = None \<Longrightarrow> finditer i t = []"
  by (induction i t rule: finditer.induct) (auto split: if_splits)

lemma finditer_find_sep_Some:
  "find_sep i t = Some j \<Longrightarrow>
   i \<le> j \<and> (\<exists>es. finditer i t = (j + 2) # es \<and> (\<forall>e \<in> set es. j + 2 < e \<and> e < i + length t \<and> t ! (e - i) = CHR ''!''))"
proof (induction i t rule: finditer.induct)
  case (1 i a b c rest)
  show ?case
  proof (cases "a = CR \<and> b = LF \<and> c = CHR ''!''")
    case True
    with "1.prems" have j: "j = i" by simp
    have "\<forall>e \<in> set (finditer (i + 2) (c # rest)).
            i + 2 < e \<and> e < i + length (a # b # c # rest) \<and> (a # b # c # rest) ! (e - i) = CHR ''!''"
    proof
      fix e assume e: "e \<in> set (finditer (i + 2) (c # rest))"
      have "e \<in> set (finditer i (a # b # c # rest))"
        using e True by simp
      from finditer_elems [OF this] finditer_elems [OF e]
      show "i + 2 < e \<and> e < i + length (a # b # c # rest) \<and> (a # b # c # rest) ! (e - i) = CHR ''!''"
        by simp
    qed
    with True j show ?thesis by simp
  next
    case False
    with "1.prems" have fs: "find_sep (i + 1) (b # c # rest) = Some j" by auto
    from "1.IH"(2) [OF False fs] obtain es where
      ij: "i + 1 \<le> j" and fi: "finditer (i + 1) (b # c # rest) = (j + 2) # es"
      and al: "\<forall>e \<in> set es. j + 2 < e \<and> e < i + 1 + length (b # c # rest)" by blast
    have "\<forall>e \<in> set es. j + 2 < e \<and> e < i + length (a # b # c # rest) \<and> (a # b # c # rest) ! (e - i) = CHR ''!''"
    proof
      fix e assume e: "e \<in> set es"
      then have "e \<in> set (finditer i (a # b # c # rest))"
        using fi False by auto
      from finditer_elems [OF this] al e
      show "j + 2 < e \<and> e < i + length (a # b # c # rest) \<and> (a # b # c # rest) ! (e - i) = CHR ''!''"
        by simp
    qed
    with fi False ij show ?thesis by auto
  qed
qed simp_all

subsection \<open>A text that \<^verbatim>\<open>int(s, 16)\<close> accepts holds no \<^verbatim>\<open>!\<close>\<close>

lemma bang_dropWhile_c: "CHR ''!'' \<in> set s \<Longrightarrow> CHR ''!'' \<in> set (dropWhile c_isspace s)"
  by (induction s) (auto simp: c_isspace_def)

lemma bang_dropWhile_str: "CHR ''!'' \<in> set s \<Longrightarrow> CHR ''!'' \<in> set (dropWhile str_isspace s)"
  by (induction s) (auto simp: str_isspace_def)

lemma bang_strip: "CHR ''!'' \<in> set s \<Longrightarrow> CHR ''!'' \<in> set (py_strip s)"
proof -
  assume "CHR ''!'' \<in> set s"
  then have "CHR ''!'' \<in> set (rev (dropWhile str_isspace s))"
    by (simp add: bang_dropWhile_str)
  then have "CHR ''!'' \<in> set (dropWhile str_isspace (rev (dropWhile str_isspace s)))"
    by (rule bang_dropWhile_str)
  then show ?thesis
    by (simp add: py_strip_def)
qed

lemma bang_skip_prefix: "CHR ''!'' \<in> set s \<Longrightarrow> CHR ''!'' \<in> set (skip_prefix s)"
  by (auto simp: skip_prefix_def split: list.splits)

lemma hexval_bang: "hexval (CHR ''!'') = None"
  by (simp add: hexval_def)

lemma scan_digits_rest:
  "scan_digits prev nd acc s = Some (nd', v, rest) \<Longrightarrow> CHR ''!'' \<in> set s \<Longrightarrow> CHR ''!'' \<in> set rest"
proof (induction s arbitrary: prev nd acc)
  case Nil
  then show ?case by simp
next
  case (Cons c cs)
  show ?case
  proof (cases "c = CHR ''_''")
    case True
    from Cons.prems(1) True have "scan_digits (Some c) nd acc cs = Some (nd', v, rest)"
      by (simp split: if_splits)
    moreover from Cons.prems(2) True have "CHR ''!'' \<in> set cs"
      by simp
    ultimately show ?thesis
      by (rule Cons.IH)
  next
    case False
    show ?thesis
    proof (cases "hexval c")
      case None
      with False Cons.prems(1) have "rest = c # cs"
        by (simp split: if_splits)
      with Cons.prems(2) show ?thesis
        by simp
    next
      case (Some d)
      with False Cons.prems(1)
      have "scan_digits (Some c) (nd + 1) (16 * acc + d) cs = Some (nd', v, rest)"
        by simp
      moreover have "c \<noteq> CHR ''!''"
        using Some hexval_bang by auto
      with Cons.prems(2) have "CHR ''!'' \<in> set cs"
        by simp
      ultimately show ?thesis
        by (rule Cons.IH)
    qed
  qed
qed

lemma scan_with_bang:
  assumes "CHR ''!'' \<in> set s3"
  shows "(if take 1 s3 = ''_'' then Inl ValueError
          else (case scan_digits None 0 0 s3 of
                  None \<Rightarrow> Inl ValueError
                | Some (nd, v, rest) \<Rightarrow>
                    if nd = 0 then Inl ValueError
                    else if dropWhile c_isspace rest \<noteq> [] then Inl ValueError
                    else Inr (if neg then - int v else int v))) = Inl ValueError"
proof (cases "scan_digits None 0 0 s3")
  case None
  then show ?thesis by simp
next
  case (Some p)
  obtain nd v rest where p: "p = (nd, v, rest)"
    by (cases p) auto
  from scan_digits_rest [OF Some [unfolded p] assms] have "CHR ''!'' \<in> set rest" .
  then have "CHR ''!'' \<in> set (dropWhile c_isspace rest)"
    by (rule bang_dropWhile_c)
  then have "dropWhile c_isspace rest \<noteq> []"
    by (cases "dropWhile c_isspace rest") simp_all
  with Some p show ?thesis by simp
qed

lemma py_int16_no_bang:
  assumes "CHR ''!'' \<in> set s"
  shows "py_int16 s = Inl ValueError"
proof -
  have b1: "CHR ''!'' \<in> set (dropWhile c_isspace s)"
    using assms by (rule bang_dropWhile_c)
  then obtain c r where s1: "dropWhile c_isspace s = c # r"
    by (cases "dropWhile c_isspace s") auto
  show ?thesis
  proof (cases "c = CHR ''+''")
    case True
    with b1 s1 have "CHR ''!'' \<in> set (skip_prefix r)"
      by (auto intro: bang_skip_prefix)
    from scan_with_bang [OF this, of False] True show ?thesis
      by (simp add: py_int16_def s1)
  next
    case plus: False
    show ?thesis
    proof (cases "c = CHR ''-''")
      case True
      with b1 s1 have "CHR ''!'' \<in> set (skip_prefix r)"
        by (auto intro: bang_skip_prefix)
      from scan_with_bang [OF this, of True] True show ?thesis
        by (simp add: py_int16_def s1)
    next
      case False
      from b1 s1 have "CHR ''!'' \<in> set (skip_prefix (c # r))"
        by (auto intro: bang_skip_prefix)
      from scan_with_bang [OF this, of False] False plus show ?thesis
        by (simp add: py_int16_def s1)
    qed
  qed
qed

subsection \<open>The theorems\<close>

lemma find_sep_str_in: "find_sep i t = None \<longleftrightarrow> \<not> str_in [CR, LF, CHR ''!''] t"
  by (induction i t rule: find_sep.induct) auto

lemma checkcrc_no_sep: "find_sep 0 t = None \<Longrightarrow> checkcrc t = Inl UnboundLocalError"
  by (simp add: checkcrc_def bind_err_def finditer_find_sep_None)

lemma decode_ascii_id: "decode_ascii b = Inr s \<Longrightarrow> s = b"
  by (auto simp: decode_ascii_def split: if_splits)

lemma single_match:
  assumes fs: "find_sep 0 t = Some j"
    and ok: "py_int16 (py_strip (drop (j + 3) t)) = Inr n"
  shows "finditer 0 t = [j + 2]"
proof -
  from finditer_find_sep_Some [OF fs] obtain es where
    fi: "finditer 0 t = (j + 2) # es"
    and al: "\<forall>e \<in> set es. j + 2 < e \<and> e < 0 + length t \<and> t ! (e - 0) = CHR ''!''"
    by blast
  have "es = []"
  proof (rule ccontr)
    assume "es \<noteq> []"
    then obtain e where "e \<in> set es"
      by (cases es) auto
    with al have "j + 3 \<le> e \<and> e < length t \<and> t ! e = CHR ''!''"
      by auto
    then have "drop (j + 3) t ! (e - (j + 3)) = CHR ''!'' \<and> e - (j + 3) < length (drop (j + 3) t)"
      by auto
    then have "CHR ''!'' \<in> set (drop (j + 3) t)"
      by (metis nth_mem)
    then have "py_int16 (py_strip (drop (j + 3) t)) = Inl ValueError"
      by (intro py_int16_no_bang bang_strip)
    with ok show False by simp
  qed
  with fi show ?thesis by simp
qed

lemma checkcrc_first_sep:
  assumes fs: "find_sep 0 t = Some j"
  shows "checkcrc t =
           bind_err (decode_ascii (drop (j + 3) t)) (\<lambda>s.
           bind_err (py_int16 (py_strip s)) (\<lambda>given.
           Inr (given = uint (crc16 (take (j + 3) t)))))"
proof -
  from finditer_find_sep_Some [OF fs] obtain es where fi: "finditer 0 t = (j + 2) # es"
    by blast
  show ?thesis
  proof (cases "decode_ascii (drop (j + 3) t)")
    case (Inl e)
    then show ?thesis
      by (simp add: checkcrc_def fi bind_err_def numeral_3_eq_3)
  next
    case (Inr s)
    then have s: "s = drop (j + 3) t"
      by (rule decode_ascii_id)
    show ?thesis
    proof (cases "py_int16 (py_strip s)")
      case (Inl e)
      with Inr show ?thesis
        by (simp add: checkcrc_def fi bind_err_def numeral_3_eq_3)
    next
      case inr: (Inr n)
      with s have "finditer 0 t = [j + 2]"
        using single_match [OF fs] by simp
      with Inr inr show ?thesis
        by (simp add: checkcrc_def bind_err_def numeral_3_eq_3 py_hex_inj)
    qed
  qed
qed

text \<open>
  Claim C2. \<open>checkcrc\<close> is the specification's rule: it splits at the first
  \<^verbatim>\<open>\r\n!\<close>, takes everything up to and including the \<^verbatim>\<open>!\<close> as the content and the rest
  as the checksum text, and returns \<^verbatim>\<open>True\<close> exactly when the number the text denotes is
  the CRC-16/ARC of the content, \<^verbatim>\<open>False\<close> when it is another number. (The loop of the
  source keeps the last match; with two matches its first turn already raises, as the
  text behind the first match then holds a \<^verbatim>\<open>!\<close>.) The strings \<^verbatim>\<open>hex\<close> builds are
  equal exactly when the numbers are.
\<close>

theorem checkcrc_refines_spec: "checkcrc t = checkcrc_spec t"
proof (cases "find_sep 0 t")
  case None
  then show ?thesis
    by (simp add: checkcrc_no_sep checkcrc_spec_def)
next
  case (Some j)
  then show ?thesis
    by (simp add: checkcrc_first_sep checkcrc_spec_def)
qed

text \<open>
  Claim C10. \<open>checkcrc\<close> returns a verdict only for a telegram in which \<^verbatim>\<open>\r\n!\<close>
  occurs: without it the loop body never runs, \<^verbatim>\<open>p1contents\<close> is unbound where the
  checksum is computed, and the call raises \<^verbatim>\<open>UnboundLocalError\<close>.
\<close>

theorem checkcrc_needs_separator:
  "(\<not> str_in [CR, LF, CHR ''!''] t \<longrightarrow> checkcrc t = Inl UnboundLocalError)
   \<and> (\<forall>b. checkcrc t = Inr b \<longrightarrow> str_in [CR, LF, CHR ''!''] t)"
proof -
  have "\<not> str_in [CR, LF, CHR ''!''] t \<longrightarrow> checkcrc t = Inl UnboundLocalError"
    by (simp add: checkcrc_no_sep find_sep_str_in)
  then show ?thesis by fastforce
qed

subsection \<open>Running \<^verbatim>\<open>checkcrc\<close>\<close>

lemma crc16_byte_unfold:
  "crc16_byte c b =
     crc16_bit (crc16_bit (crc16_bit (crc16_bit (crc16_bit (crc16_bit (crc16_bit (crc16_bit
       (c XOR of_char b))))))))"
  by (simp add: crc16_byte_def eval_nat_numeral)

lemmas crc16_eval = crc16_def crc16_byte_unfold crc16_bit_def

lemmas int16_eval = py_int16_def skip_prefix_def c_isspace_def hexval_def py_strip_def
  str_isspace_def decode_ascii_def bind_err_def

lemma crc16_check: "crc16 ''123456789'' = 0xBB3D"
  by (simp add: crc16_eval)

lemma checkcrc_small: "checkcrc (''123456'' @ [CR, LF] @ ''!DC08'' @ [CR, LF]) = Inr True"
proof -
  have fs: "find_sep 0 (''123456'' @ [CR, LF] @ ''!DC08'' @ [CR, LF]) = Some 6"
    by simp
  have crc: "crc16 (''123456'' @ [CR, LF] @ ''!'') = 0xDC08"
    by (simp add: crc16_eval)
  have given: "py_int16 (py_strip (''DC08'' @ [CR, LF])) = Inr 0xDC08"
    by (simp add: int16_eval)
  have asc: "decode_ascii (''DC08'' @ [CR, LF]) = Inr (''DC08'' @ [CR, LF])"
    by (simp add: decode_ascii_def)
  show ?thesis
    by (subst checkcrc_first_sep [OF fs]) (use crc given asc in \<open>simp add: bind_err_def\<close>)
qed

theorem checkcrc_needs_separator_witness:
  "\<not> str_in [CR, LF, CHR ''!''] ''/abc'' \<and> checkcrc ''/abc'' = Inl UnboundLocalError
   \<and> checkcrc (''123456'' @ [CR, LF] @ ''!DC08'' @ [CR, LF]) = Inr True
   \<and> str_in [CR, LF, CHR ''!''] (''123456'' @ [CR, LF] @ ''!DC08'' @ [CR, LF])"
  using checkcrc_needs_separator [of "''/abc''"]
    checkcrc_needs_separator [of "''123456'' @ [CR, LF] @ ''!DC08'' @ [CR, LF]"] checkcrc_small
  by simp

section \<open>Properties of \<^verbatim>\<open>parsetelegramline\<close>\<close>

lemma split_on_not_Nil: "split_on sep s \<noteq> []"
  by (induction s) (auto split: list.splits)

lemma hd_split_on: "hd (split_on sep s) = takeWhile (\<lambda>c. c \<noteq> sep) s"
  by (induction s) (auto split: list.splits simp: split_on_not_Nil)

lemma length_split_on: "1 < length (split_on sep s) \<longleftrightarrow> sep \<in> set s"
proof (induction s)
  case Nil
  then show ?case by simp
next
  case (Cons c cs)
  obtain p ps where "split_on sep cs = p # ps"
    using split_on_not_Nil [of sep cs] by (cases "split_on sep cs") auto
  with Cons show ?case by auto
qed

text \<open>The registry as shipped: no code holds the serial-number marker, one the timestamp marker.\<close>

lemma registry_markers:
  "list_all (\<lambda>k. \<not> str_in ''96.1.1'' k \<and> str_in ''1.0.0'' k = (k = ''0-0:1.0.0'')) (map fst obiscodes)"
  by (simp add: obiscodes_def)

lemma registered_markers:
  assumes "map_of obiscodes obis = Some description"
  shows "\<not> str_in ''96.1.1'' obis \<and> str_in ''1.0.0'' obis = (obis = ''0-0:1.0.0'')"
proof -
  from assms have "(obis, description) \<in> set obiscodes"
    by (rule map_of_SomeD)
  then have "obis \<in> set (map fst obiscodes)"
    by force
  with registry_markers show ?thesis
    by (auto simp: list_all_iff)
qed

lemma timestamp_registered: "map_of obiscodes ''0-0:1.0.0'' = Some ''Timestamp''"
  by (simp add: obiscodes_def)

lemma parse_registered_line:
  assumes "map_of obiscodes (takeWhile (\<lambda>c. c \<noteq> CHR ''('') p1line) = Some description"
    and "findall p1line = v0 # vs"
  shows "parsetelegramline F p1line =
    (let captured = slice_1_m1 (case vs of [] \<Rightarrow> v0 | v1 # _ \<Rightarrow> v1)
     in if takeWhile (\<lambda>c. c \<noteq> CHR ''('') p1line = ''0-0:1.0.0''
        then Inr (Some \<lparr>row_desc = ''Timestamp'', row_value = VStr captured, row_unit = ''''\<rparr>)
        else (case float_of_str F (takeWhile (\<lambda>c. c \<noteq> CHR ''*'') captured) of
                None \<Rightarrow> Inl ValueError
              | Some x \<Rightarrow>
                  Inr (Some \<lparr>row_desc = description, row_value = VFloat x,
                             row_unit = (if CHR ''*'' \<in> set captured
                                         then split_on (CHR ''*'') captured ! 1 else '''')\<rparr>)))"
proof -
  note m = registered_markers [OF assms(1)]
  show ?thesis
  proof (cases "takeWhile (\<lambda>c. c \<noteq> CHR ''('') p1line = ''0-0:1.0.0''")
    case True
    with assms timestamp_registered m show ?thesis
      by (cases vs) (simp_all add: parsetelegramline_def parsetelegramline_reg_def hd_split_on)
  next
    case False
    with assms m show ?thesis
      by (cases vs)
        (simp_all add: parsetelegramline_def parsetelegramline_reg_def hd_split_on
          length_split_on [simplified] Let_def split: option.splits)
  qed
qed

text \<open>
  Claim C7. For a registered code and a line with at least one parenthesised group
  (the last of the first two is the captured one): under the timestamp code the value
  is the captured text as it stands; under any other code the captured text is split at
  \<^verbatim>\<open>*\<close>, the part before the first \<^verbatim>\<open>*\<close> goes to \<^verbatim>\<open>float\<close>, whose failure is raised
  as \<^verbatim>\<open>ValueError\<close>, and the unit is the part behind the first \<^verbatim>\<open>*\<close>, or empty when
  there is no \<^verbatim>\<open>*\<close>.
\<close>

theorem parsetelegramline_value_and_unit:
  assumes "map_of obiscodes (takeWhile (\<lambda>c. c \<noteq> CHR ''('') p1line) = Some description"
    and "findall p1line = v0 # vs"
  shows "parsetelegramline F p1line =
    (let captured = slice_1_m1 (case vs of [] \<Rightarrow> v0 | v1 # _ \<Rightarrow> v1)
     in if takeWhile (\<lambda>c. c \<noteq> CHR ''('') p1line = ''0-0:1.0.0''
        then Inr (Some \<lparr>row_desc = ''Timestamp'', row_value = VStr captured, row_unit = ''''\<rparr>)
        else (case float_of_str F (takeWhile (\<lambda>c. c \<noteq> CHR ''*'') captured) of
                None \<Rightarrow> Inl ValueError
              | Some x \<Rightarrow>
                  Inr (Some \<lparr>row_desc = description, row_value = VFloat x,
                             row_unit = (if CHR ''*'' \<in> set captured
                                         then split_on (CHR ''*'') captured ! 1 else '''')\<rparr>)))"
  using assms by (rule parse_registered_line)

lemmas line_eval = parsetelegramline_def parsetelegramline_reg_def obiscodes_def slice_1_m1_def
  bind_err_def Let_def

lemmas dec_eval = dec_ops_def dec_of_str_def dec_nat_def is_digit_def in_range_def digit_val_def

theorem parsetelegramline_value_and_unit_witness:
  "parsetelegramline dec_ops ''1-0:1.8.1(1.5*kWh)'' =
     Inr (Some \<lparr>row_desc = ''Rate 1 (day) - total consumption'', row_value = VFloat (15, 1),
                row_unit = ''kWh''\<rparr>)
   \<and> parsetelegramline dec_ops ''1-0:1.8.1(12)'' =
     Inr (Some \<lparr>row_desc = ''Rate 1 (day) - total consumption'', row_value = VFloat (12, 0),
                row_unit = ''''\<rparr>)
   \<and> parsetelegramline dec_ops ''1-0:1.8.1(1,5*kWh)'' = Inl ValueError
   \<and> parsetelegramline dec_ops ''0-0:1.0.0(230615123045S)'' =
     Inr (Some \<lparr>row_desc = ''Timestamp'', row_value = VStr ''230615123045S'', row_unit = ''''\<rparr>)"
proof -
  have r: "map_of obiscodes ''1-0:1.8.1'' = Some ''Rate 1 (day) - total consumption''"
    by (simp add: obiscodes_def)
  have "parsetelegramline dec_ops ''1-0:1.8.1(1.5*kWh)'' =
     Inr (Some \<lparr>row_desc = ''Rate 1 (day) - total consumption'', row_value = VFloat (15, 1),
                row_unit = ''kWh''\<rparr>)"
    using parsetelegramline_value_and_unit
      [of "''1-0:1.8.1(1.5*kWh)''" "''Rate 1 (day) - total consumption''" "''(1.5*kWh)''" "[]" dec_ops]
    by (simp add: r slice_1_m1_def dec_eval)
  moreover have "parsetelegramline dec_ops ''1-0:1.8.1(12)'' =
     Inr (Some \<lparr>row_desc = ''Rate 1 (day) - total consumption'', row_value = VFloat (12, 0),
                row_unit = ''''\<rparr>)"
    using parsetelegramline_value_and_unit
      [of "''1-0:1.8.1(12)''" "''Rate 1 (day) - total consumption''" "''(12)''" "[]" dec_ops]
    by (simp add: r slice_1_m1_def dec_eval)
  moreover have "parsetelegramline dec_ops ''1-0:1.8.1(1,5*kWh)'' = Inl ValueError"
    using parsetelegramline_value_and_unit
      [of "''1-0:1.8.1(1,5*kWh)''" "''Rate 1 (day) - total consumption''" "''(1,5*kWh)''" "[]" dec_ops]
    by (simp add: r slice_1_m1_def dec_eval)
  moreover have "parsetelegramline dec_ops ''0-0:1.0.0(230615123045S)'' =
     Inr (Some \<lparr>row_desc = ''Timestamp'', row_value = VStr ''230615123045S'', row_unit = ''''\<rparr>)"
    using parsetelegramline_value_and_unit
      [of "''0-0:1.0.0(230615123045S)''" "''Timestamp''" "''(230615123045S)''" "[]" dec_ops]
    by (simp add: timestamp_registered slice_1_m1_def)
  ultimately show ?thesis by blast
qed

subsection \<open>Serial numbers\<close>

lemma hexval_not_space: "hexval c = Some d \<Longrightarrow> \<not> c_isspace c"
  by (auto simp: hexval_def c_isspace_def Let_def split: if_splits)

text \<open>Pairs of hex digits decode to one byte each.\<close>

lemma fromhex_pairs:
  "list_all (\<lambda>(h, l). hexval h \<noteq> None \<and> hexval l \<noteq> None) ps \<Longrightarrow>
   fromhex (concat (map (\<lambda>(h, l). [h, l]) ps)) =
     Inr (map (\<lambda>(h, l). char_of (16 * the (hexval h) + the (hexval l))) ps)"
proof (induction ps)
  case Nil
  then show ?case by simp
next
  case (Cons p ps)
  obtain h l where p: "p = (h, l)"
    by (cases p)
  from Cons.prems p obtain a b where hv: "hexval h = Some a" "hexval l = Some b"
    by auto
  from Cons have "fromhex (concat (map (\<lambda>(h, l). [h, l]) ps)) =
     Inr (map (\<lambda>(h, l). char_of (16 * the (hexval h) + the (hexval l))) ps)"
    by simp
  with hv p show ?case
    by (simp add: hexval_not_space bind_err_def)
qed

lemma utf8_valid_ascii: "list_all (\<lambda>c. (of_char c :: nat) < 128) b \<Longrightarrow> utf8_valid b"
  by (induction b) (auto simp: in_range_def)

lemma decode_utf8_ascii: "list_all (\<lambda>c. (of_char c :: nat) < 128) b \<Longrightarrow> decode_utf8 b = Inr b"
  by (simp add: decode_utf8_def utf8_valid_ascii)

text \<open>
  Claim C5, as amended. A line whose code holds the marker \<^verbatim>\<open>96.1.1\<close> gets no
  measurement from the decoder as shipped: the two serial-number entries of
  \<^verbatim>\<open>obiscodes\<close> are commented out, no registered code holds the marker, and the line is
  skipped like any unknown code. With a registry that does register the code, the value
  is the captured group read as pairs of hex digits, one ASCII character each; then
  \<^verbatim>\<open>4142\<close> gives \<^verbatim>\<open>AB\<close>.
\<close>

theorem serial_number_lines:
  "(str_in ''96.1.1'' (takeWhile (\<lambda>c. c \<noteq> CHR ''('') p1line) \<longrightarrow>
      parsetelegramline F p1line = Inr None)
   \<and> (map_of reg (takeWhile (\<lambda>c. c \<noteq> CHR ''('') p1line) = Some description
      \<and> str_in ''96.1.1'' (takeWhile (\<lambda>c. c \<noteq> CHR ''('') p1line)
      \<and> findall p1line = v0 # vs
      \<and> slice_1_m1 (case vs of [] \<Rightarrow> v0 | v1 # _ \<Rightarrow> v1) = concat (map (\<lambda>(h, l). [h, l]) ps)
      \<and> list_all (\<lambda>(h, l). hexval h \<noteq> None \<and> hexval l \<noteq> None) ps
      \<and> list_all (\<lambda>(h, l). 16 * the (hexval h) + the (hexval l) < 128) ps \<longrightarrow>
      parsetelegramline_reg reg F p1line =
        Inr (Some \<lparr>row_desc = description,
                   row_value = VStr (map (\<lambda>(h, l). char_of (16 * the (hexval h) + the (hexval l))) ps),
                   row_unit = ''''\<rparr>))"
proof (intro conjI impI)
  assume m: "str_in ''96.1.1'' (takeWhile (\<lambda>c. c \<noteq> CHR ''('') p1line)"
  have "map_of obiscodes (takeWhile (\<lambda>c. c \<noteq> CHR ''('') p1line) = None"
  proof (cases "map_of obiscodes (takeWhile (\<lambda>c. c \<noteq> CHR ''('') p1line)")
    case None
    then show ?thesis .
  next
    case (Some d)
    from registered_markers [OF Some] m show ?thesis by simp
  qed
  then show "parsetelegramline F p1line = Inr None"
    by (simp add: parsetelegramline_def parsetelegramline_reg_def hd_split_on)
next
  assume a: "map_of reg (takeWhile (\<lambda>c. c \<noteq> CHR ''('') p1line) = Some description
      \<and> str_in ''96.1.1'' (takeWhile (\<lambda>c. c \<noteq> CHR ''('') p1line)
      \<and> findall p1line = v0 # vs
      \<and> slice_1_m1 (case vs of [] \<Rightarrow> v0 | v1 # _ \<Rightarrow> v1) = concat (map (\<lambda>(h, l). [h, l]) ps)
      \<and> list_all (\<lambda>(h, l). hexval h \<noteq> None \<and> hexval l \<noteq> None) ps
      \<and> list_all (\<lambda>(h, l). 16 * the (hexval h) + the (hexval l) < 128) ps"
  let ?bytes = "map (\<lambda>(h, l). char_of (16 * the (hexval h) + the (hexval l))) ps"
  from a have fh: "fromhex (slice_1_m1 (case vs of [] \<Rightarrow> v0 | v1 # _ \<Rightarrow> v1)) = Inr ?bytes"
    by (simp add: fromhex_pairs)
  from a have "list_all (\<lambda>c. (of_char c :: nat) < 128) ?bytes"
    by (auto simp: list_all_iff)
  then have du: "decode_utf8 ?bytes = Inr ?bytes"
    by (rule decode_utf8_ascii)
  from a fh du show "parsetelegramline_reg reg F p1line =
        Inr (Some \<lparr>row_desc = description, row_value = VStr ?bytes, row_unit = ''''\<rparr>)"
    by (cases vs) (simp_all add: parsetelegramline_reg_def hd_split_on bind_err_def)
qed

theorem serial_number_lines_witness:
  "parsetelegramline dec_ops ''0-0:96.1.1(4142)'' = Inr None
   \<and> parsetelegramline_reg ((''0-0:96.1.1'', ''Meter serial electricity'') # obiscodes) dec_ops
        ''0-0:96.1.1(4142)'' =
      Inr (Some \<lparr>row_desc = ''Meter serial electricity'', row_value = VStr ''AB'', row_unit = ''''\<rparr>)"
  using serial_number_lines
    [of "''0-0:96.1.1(4142)''" dec_ops "(''0-0:96.1.1'', ''Meter serial electricity'') # obiscodes"
        "''Meter serial electricity''" "''(4142)''" "[]" "[(CHR ''4'', CHR ''1''), (CHR ''4'', CHR ''2'')]"]
  by (simp add: slice_1_m1_def hexval_def char_of_def bit_Suc_0_iff)

text \<open>
  Claim C5 as stated fails: the serial-number line of the specification, \<^verbatim>\<open>4142\<close> under
  the code \<^verbatim>\<open>0-0:96.1.1\<close>, gets no measurement at all.
\<close>

theorem serial_number_line_counterexample:
  "parsetelegramline dec_ops ''0-0:96.1.1(4142)'' \<noteq>
     Inr (Some \<lparr>row_desc = ''Meter serial electricity'', row_value = VStr ''AB'', row_unit = ''''\<rparr>)
   \<and> parsetelegramline dec_ops ''0-0:96.1.1(4142)'' = Inr None"
  by (simp add: line_eval)

section \<open>The telegram record\<close>

lemma parsetelegramline_desc:
  assumes "parsetelegramline F text = Inr (Some r)"
  shows "map_of obiscodes (takeWhile (\<lambda>c. c \<noteq> CHR ''('') text) = Some (row_desc r)"
proof (cases "map_of obiscodes (takeWhile (\<lambda>c. c \<noteq> CHR ''('') text)")
  case None
  with assms show ?thesis
    by (simp add: parsetelegramline_def parsetelegramline_reg_def hd_split_on)
next
  case (Some d)
  show ?thesis
  proof (cases "findall text")
    case Nil
    with assms Some show ?thesis
      by (simp add: parsetelegramline_def parsetelegramline_reg_def hd_split_on)
  next
    case (Cons v0 vs)
    from parse_registered_line [OF Some Cons, of F] assms have "row_desc r = d"
      using Some timestamp_registered
      by (auto simp: Let_def split: if_splits option.splits)
    with Some show ?thesis by simp
  qed
qed

lemma parse_lines_append:
  "parse_lines F (xs @ ys) out = bind_err (parse_lines F xs out) (parse_lines F ys)"
proof (induction xs arbitrary: out)
  case Nil
  then show ?case by (simp add: bind_err_def)
next
  case (Cons l ls)
  show ?case
  proof (cases "decode_ascii l")
    case (Inl e)
    then show ?thesis by (simp add: bind_err_def)
  next
    case (Inr t)
    then show ?thesis
      by (cases "parsetelegramline F t") (simp_all add: bind_err_def Cons.IH)
  qed
qed

lemma parse_lines_keeps:
  "parse_lines F ls out = Inr out' \<Longrightarrow> map_of out k = Some v \<Longrightarrow>
   list_all (\<lambda>l. \<not> writes F k l) ls \<Longrightarrow> map_of out' k = Some v"
proof (induction ls arbitrary: out)
  case Nil
  then show ?case by simp
next
  case (Cons l ls)
  from Cons.prems(1) obtain t where t: "decode_ascii l = Inr t"
    by (cases "decode_ascii l") (simp_all add: bind_err_def)
  with Cons.prems(1) obtain row where row: "parsetelegramline F t = Inr row"
    by (cases "parsetelegramline F t") (simp_all add: bind_err_def)
  let ?out1 = "case row of None \<Rightarrow> out | Some r \<Rightarrow> AList.update (row_desc r) (row_value r) out"
  from Cons.prems(1) t row have rest: "parse_lines F ls ?out1 = Inr out'"
    by (simp add: bind_err_def)
  from Cons.prems(3) t row have "case row of None \<Rightarrow> True | Some r \<Rightarrow> row_desc r \<noteq> k"
    by (cases row) (simp_all add: writes_def)
  with Cons.prems(2) have "map_of ?out1 k = Some v"
    by (cases row) (simp_all add: update_conv')
  moreover from Cons.prems(3) have "list_all (\<lambda>l. \<not> writes F k l) ls"
    by simp
  ultimately show ?case
    using Cons.IH [OF rest] by blast
qed

text \<open>
  Claim C8. The description of a measurement is the registry's entry for the code of its
  line, so the same code always gives the same description, and the two gas codes give
  the same one. The record is keyed by description: after the loop over the lines, the
  value under a description is the value of the last line that has this description,
  whatever the lines before it stored there.
\<close>

theorem registry_lookup_and_last_write_wins:
  "(parsetelegramline F text = Inr (Some r) \<longrightarrow>
      map_of obiscodes (takeWhile (\<lambda>c. c \<noteq> CHR ''('') text) = Some (row_desc r))
   \<and> map_of obiscodes ''0-1:24.2.3'' = Some ''Gas consumption''
   \<and> map_of obiscodes ''0-1:24.2.1'' = Some ''Gas consumption''
   \<and> (parse_lines F (before @ [line] @ after) out0 = Inr out
      \<and> decode_ascii line = Inr text' \<and> parsetelegramline F text' = Inr (Some r')
      \<and> list_all (\<lambda>l. \<not> writes F (row_desc r') l) after \<longrightarrow>
      map_of out (row_desc r') = Some (row_value r'))"
proof (intro conjI impI)
  assume "parsetelegramline F text = Inr (Some r)"
  then show "map_of obiscodes (takeWhile (\<lambda>c. c \<noteq> CHR ''('') text) = Some (row_desc r)"
    by (rule parsetelegramline_desc)
next
  show "map_of obiscodes ''0-1:24.2.3'' = Some ''Gas consumption''"
    by (simp add: obiscodes_def)
next
  show "map_of obiscodes ''0-1:24.2.1'' = Some ''Gas consumption''"
    by (simp add: obiscodes_def)
next
  assume a: "parse_lines F (before @ [line] @ after) out0 = Inr out
      \<and> decode_ascii line = Inr text' \<and> parsetelegramline F text' = Inr (Some r')
      \<and> list_all (\<lambda>l. \<not> writes F (row_desc r') l) after"
  then have pl: "parse_lines F (before @ [line] @ after) out0 = Inr out"
    and d: "decode_ascii line = Inr text'" and p: "parsetelegramline F text' = Inr (Some r')"
    by blast+
  from pl have "bind_err (parse_lines F before out0) (parse_lines F ([line] @ after)) = Inr out"
    by (simp only: parse_lines_append)
  then obtain out1 where o1: "parse_lines F before out0 = Inr out1"
    and o2: "parse_lines F (line # after) out1 = Inr out"
    by (cases "parse_lines F before out0") (auto simp: bind_err_def)
  from o2 d p have "parse_lines F after (AList.update (row_desc r') (row_value r') out1) = Inr out"
    by (simp add: bind_err_def)
  moreover have "map_of (AList.update (row_desc r') (row_value r') out1) (row_desc r') = Some (row_value r')"
    by (simp add: update_conv')
  ultimately show "map_of out (row_desc r') = Some (row_value r')"
    using a parse_lines_keeps by blast
qed

theorem registry_lookup_and_last_write_wins_witness:
  "parse_lines dec_ops
      [''0-1:24.2.3(230615123000S)(1.5*m3)'', ''0-1:24.2.1(230615123500S)(2.25*m3)''] [] =
     Inr [(''Gas consumption'', VFloat (225, 2))]
   \<and> map_of [(''Gas consumption'', VFloat (225, 2) :: dec pyval)] ''Gas consumption'' = Some (VFloat (225, 2))"
proof -
  have e1: "parsetelegramline dec_ops ''0-1:24.2.3(230615123000S)(1.5*m3)'' =
      Inr (Some \<lparr>row_desc = ''Gas consumption'', row_value = VFloat (15, 1), row_unit = ''m3''\<rparr>)"
    by (simp add: line_eval dec_eval)
  have e2: "parsetelegramline dec_ops ''0-1:24.2.1(230615123500S)(2.25*m3)'' =
      Inr (Some \<lparr>row_desc = ''Gas consumption'', row_value = VFloat (225, 2), row_unit = ''m3''\<rparr>)"
    by (simp add: line_eval dec_eval)
  have pl: "parse_lines dec_ops
      ([''0-1:24.2.3(230615123000S)(1.5*m3)''] @ [''0-1:24.2.1(230615123500S)(2.25*m3)''] @ []) [] =
     Inr [(''Gas consumption'', VFloat (225, 2))]"
    by (simp add: e1 e2 decode_ascii_def bind_err_def)
  have d2: "decode_ascii ''0-1:24.2.1(230615123500S)(2.25*m3)'' = Inr ''0-1:24.2.1(230615123500S)(2.25*m3)''"
    by (simp add: decode_ascii_def)
  from registry_lookup_and_last_write_wins
    [where F = dec_ops and before = "[''0-1:24.2.3(230615123000S)(1.5*m3)'']"
       and line = "''0-1:24.2.1(230615123500S)(2.25*m3)''" and after = "[]" and ?out0.0 = "[]"
       and out = "[(''Gas consumption'', VFloat (225, 2))]"
       and text' = "''0-1:24.2.1(230615123500S)(2.25*m3)''"
       and r' = "\<lparr>row_desc = ''Gas consumption'', row_value = VFloat (225, 2), row_unit = ''m3''\<rparr>"]
  have "map_of [(''Gas consumption'', VFloat (225, 2) :: dec pyval)] ''Gas consumption'' = Some (VFloat (225, 2))"
    using pl d2 e2 by simp
  with pl show ?thesis by simp
qed

section \<open>Properties of the acquisition loop\<close>

lemma publish_keeps:
  "p1telegram (fst (publish F output st)) = p1telegram st
   \<and> ser_open (fst (publish F output st)) = ser_open st"
  by (simp add: publish_def Let_def split: sum.splits prod.splits)

lemma process_telegram_keeps:
  "p1telegram (fst (process_telegram F st)) = p1telegram st
   \<and> ser_open (fst (process_telegram F st)) = ser_open st"
  by (simp add: process_telegram_def publish_keeps split: sum.splits)

text \<open>
  Claim C6, as amended. For every line that decodes as ASCII: the buffer after the turn
  is the old buffer, emptied first when the line holds \<^verbatim>\<open>/\<close>, with the line appended as
  it came; a line without \<^verbatim>\<open>!\<close> changes nothing else; a line with \<^verbatim>\<open>!\<close> hands the
  buffer to \<^verbatim>\<open>checkcrc\<close>, whose verdict decides what follows. A line with a byte above
  127 raises in \<^verbatim>\<open>decode\<close> before anything is reset or appended: the buffer stays as
  it was and the \<^verbatim>\<open>except\<close> branch closes the port.
\<close>

theorem framer_step:
  "(decode_ascii p1line = Inl e \<longrightarrow> main_iteration F st p1line = st\<lparr>ser_open := False\<rparr>)
   \<and> (decode_ascii p1line = Inr text \<longrightarrow>
        p1telegram (main_iteration F st p1line) =
          (if CHR ''/'' \<in> set p1line then [] else p1telegram st) @ p1line
        \<and> (CHR ''!'' \<notin> set p1line \<longrightarrow>
             main_iteration F st p1line =
               st\<lparr>p1telegram := (if CHR ''/'' \<in> set p1line then [] else p1telegram st) @ p1line\<rparr>)
        \<and> (CHR ''!'' \<in> set p1line \<longrightarrow>
             try_body F st p1line =
               (let st1 = st\<lparr>p1telegram := (if CHR ''/'' \<in> set p1line then [] else p1telegram st) @ p1line\<rparr>
                in case checkcrc (p1telegram st1) of
                     Inl e \<Rightarrow> (st1, Some e)
                   | Inr ok \<Rightarrow> if ok then process_telegram F st1 else (st1, None))))"
proof (intro conjI impI)
  assume "decode_ascii p1line = Inl e"
  then show "main_iteration F st p1line = st\<lparr>ser_open := False\<rparr>"
    by (simp add: main_iteration_def try_body_def)
next
  assume d: "decode_ascii p1line = Inr text"
  then have t: "text = p1line"
    by (rule decode_ascii_id)
  let ?st1 = "st\<lparr>p1telegram := (if CHR ''/'' \<in> set p1line then [] else p1telegram st) @ p1line\<rparr>"
  show "CHR ''!'' \<notin> set p1line \<Longrightarrow> main_iteration F st p1line = ?st1"
    using d t by (simp add: main_iteration_def try_body_def)
  show tb: "CHR ''!'' \<in> set p1line \<Longrightarrow> try_body F st p1line =
               (let st1 = ?st1
                in case checkcrc (p1telegram st1) of
                     Inl e \<Rightarrow> (st1, Some e)
                   | Inr ok \<Rightarrow> if ok then process_telegram F st1 else (st1, None))"
    using d t by (simp add: try_body_def)
  have "p1telegram (fst (try_body F st p1line)) = p1telegram ?st1"
    using d t process_telegram_keeps [of F ?st1]
    by (auto simp: try_body_def Let_def split: sum.splits)
  then show "p1telegram (main_iteration F st p1line) =
          (if CHR ''/'' \<in> set p1line then [] else p1telegram st) @ p1line"
    by (cases "try_body F st p1line") (auto simp: main_iteration_def split: option.splits)
qed

lemma try_body_effects:
  assumes "\<not> (CHR ''!'' \<in> set p1line \<and>
            checkcrc ((if CHR ''/'' \<in> set p1line then [] else p1telegram st) @ p1line) = Inr True)"
  shows "files (main_iteration F st p1line) = files st
         \<and> latest_data (main_iteration F st p1line) = latest_data st"
proof (cases "decode_ascii p1line")
  case (Inl e)
  then show ?thesis
    by (simp add: main_iteration_def try_body_def)
next
  case (Inr s)
  then have "s = p1line"
    by (rule decode_ascii_id)
  with Inr assms show ?thesis
    by (auto simp: main_iteration_def try_body_def Let_def split: sum.splits)
qed

text \<open>
  Claim C1, as amended. A turn of the loop changes the CSV files or the published
  snapshot only if its line holds \<^verbatim>\<open>!\<close> and \<^verbatim>\<open>checkcrc\<close> returned \<^verbatim>\<open>True\<close> for the
  telegram assembled. In particular a telegram whose checksum text denotes another
  number than the CRC of its content leaves the files and the snapshot as they were.
\<close>

theorem effects_only_after_valid_crc:
  "(files (main_iteration F st p1line) \<noteq> files st
      \<or> latest_data (main_iteration F st p1line) \<noteq> latest_data st \<longrightarrow>
      CHR ''!'' \<in> set p1line
      \<and> checkcrc ((if CHR ''/'' \<in> set p1line then [] else p1telegram st) @ p1line) = Inr True)
   \<and> (find_sep 0 ((if CHR ''/'' \<in> set p1line then [] else p1telegram st) @ p1line) = Some i
      \<and> py_int16 (py_strip (drop (i + 3) ((if CHR ''/'' \<in> set p1line then [] else p1telegram st) @ p1line))) = Inr n
      \<and> n \<noteq> uint (crc16 (take (i + 3) ((if CHR ''/'' \<in> set p1line then [] else p1telegram st) @ p1line))) \<longrightarrow>
      files (main_iteration F st p1line) = files st
      \<and> latest_data (main_iteration F st p1line) = latest_data st)"
proof (intro conjI impI)
  assume "files (main_iteration F st p1line) \<noteq> files st
      \<or> latest_data (main_iteration F st p1line) \<noteq> latest_data st"
  with try_body_effects [of p1line st F]
  have ok: "CHR ''!'' \<in> set p1line
      \<and> checkcrc ((if CHR ''/'' \<in> set p1line then [] else p1telegram st) @ p1line) = Inr True"
    by blast
  from ok show "CHR ''!'' \<in> set p1line" ..
  from ok show "checkcrc ((if CHR ''/'' \<in> set p1line then [] else p1telegram st) @ p1line) = Inr True" ..
next
  let ?buf = "(if CHR ''/'' \<in> set p1line then [] else p1telegram st) @ p1line"
  assume a: "find_sep 0 ?buf = Some i \<and> py_int16 (py_strip (drop (i + 3) ?buf)) = Inr n
      \<and> n \<noteq> uint (crc16 (take (i + 3) ?buf))"
  then have fs: "find_sep 0 ?buf = Some i" ..
  have "checkcrc ?buf \<noteq> Inr True"
  proof (cases "decode_ascii (drop (i + 3) ?buf)")
    case (Inl e)
    then show ?thesis
      by (simp add: checkcrc_first_sep [OF fs] bind_err_def)
  next
    case (Inr s)
    then have "s = drop (i + 3) ?buf"
      by (rule decode_ascii_id)
    with Inr a show ?thesis
      by (simp add: checkcrc_first_sep [OF fs] bind_err_def)
  qed
  then have "files (main_iteration F st p1line) = files st
      \<and> latest_data (main_iteration F st p1line) = latest_data st"
    by (intro try_body_effects) simp
  then show "files (main_iteration F st p1line) = files st"
    and "latest_data (main_iteration F st p1line) = latest_data st"
    by simp_all
qed

text \<open>
  Claim C4, as amended. The record of a CRC-valid telegram is \<open>output\<close>. Without a
  \<^verbatim>\<open>Timestamp\<close> the first read raises \<^verbatim>\<open>KeyError\<close> and nothing is written or published.
  With a \<^verbatim>\<open>Timestamp\<close>, when the day's file cannot be opened, \<^verbatim>\<open>write_csv\<close> raises and
  nothing is written or published either. With a \<^verbatim>\<open>Timestamp\<close> but without one of the
  four rate fields, when the day's file can be opened, the processing raises as well (no
  zero stands in for the field) and nothing is published, but the row of the full record
  has been written to the day's file by then: \<^verbatim>\<open>write_csv\<close> for it comes before the
  rates are read. The summary row is not written.
\<close>

theorem missing_fields:
  "(map_of output ''Timestamp'' = None \<longrightarrow> publish F output st = (st, Some KeyError))
   \<and> (map_of output ''Timestamp'' = Some (VStr ts)
      \<and> open_append (''data/'' @ take 6 ts @ ''.csv'') (files st) = Some e' \<longrightarrow>
      publish F output st = (st, Some e'))
   \<and> (map_of output ''Timestamp'' = Some (VStr ts)
      \<and> (map_of output ''Rate 1 (day) - total consumption'' = None
         \<or> map_of output ''Rate 2 (night) - total consumption'' = None
         \<or> map_of output ''Rate 1 (day) - total production'' = None
         \<or> map_of output ''Rate 2 (night) - total production'' = None)
      \<and> open_append (''data/'' @ take 6 ts @ ''.csv'') (files st) = None \<longrightarrow>
      (\<exists>e. publish F output st =
             (st\<lparr>files := (files st)\<lparr>contents :=
                   append_row (''data/'' @ take 6 ts @ ''.csv'') output (contents (files st))\<rparr>\<rparr>,
              Some e)))"
proof (intro conjI impI)
  assume "map_of output ''Timestamp'' = None"
  then show "publish F output st = (st, Some KeyError)"
    by (simp add: publish_def getitem_def bind_err_def)
next
  assume a: "map_of output ''Timestamp'' = Some (VStr ts)
      \<and> open_append (''data/'' @ take 6 ts @ ''.csv'') (files st) = Some e'"
  then have "bind_err (getitem output ''Timestamp'') slice_0_6 = Inr (take 6 ts)"
    by (simp add: bind_err_def getitem_def slice_0_6_def)
  moreover from a have "write_csv (''data/'' @ take 6 ts @ ''.csv'') output (files st) = Inl e'"
    by (simp add: write_csv_def)
  ultimately show "publish F output st = (st, Some e')"
    by (simp add: publish_def)
next
  assume a: "map_of output ''Timestamp'' = Some (VStr ts)
      \<and> (map_of output ''Rate 1 (day) - total consumption'' = None
         \<or> map_of output ''Rate 2 (night) - total consumption'' = None
         \<or> map_of output ''Rate 1 (day) - total production'' = None
         \<or> map_of output ''Rate 2 (night) - total production'' = None)
      \<and> open_append (''data/'' @ take 6 ts @ ''.csv'') (files st) = None"
  let ?fs1 = "(files st)\<lparr>contents :=
      append_row (''data/'' @ take 6 ts @ ''.csv'') output (contents (files st))\<rparr>"
  let ?chain =
    "bind_err (getitem output ''Timestamp'') (\<lambda>ts.
     bind_err (to_unixtime_val ts) (\<lambda>timestamp.
     bind_err (getitem output ''Rate 1 (day) - total consumption'') (\<lambda>c1.
     bind_err (getitem output ''Rate 2 (night) - total consumption'') (\<lambda>c2.
     bind_err (py_add F c1 c2) (\<lambda>consumption.
     bind_err (getitem output ''Rate 1 (day) - total production'') (\<lambda>p1.
     bind_err (getitem output ''Rate 2 (night) - total production'') (\<lambda>p2.
     bind_err (py_add F p1 p2) (\<lambda>production.
     Inr (timestamp, consumption, production)))))))))"
  from a have "\<exists>e. ?chain = Inl e"
    by (auto simp: bind_err_def getitem_def split: sum.splits option.splits)
  then obtain e where "?chain = Inl e" ..
  moreover from a have "bind_err (getitem output ''Timestamp'') slice_0_6 = Inr (take 6 ts)"
    by (simp add: bind_err_def getitem_def slice_0_6_def)
  moreover from a have "write_csv (''data/'' @ take 6 ts @ ''.csv'') output (files st) = Inr ?fs1"
    by (simp add: write_csv_def)
  ultimately have "publish F output st = (st\<lparr>files := ?fs1\<rparr>, Some e)"
    by (simp add: publish_def)
  then show "\<exists>e. publish F output st = (st\<lparr>files := ?fs1\<rparr>, Some e)" ..
qed

lemma publish_latest_data:
  "latest_data (fst (publish F output st)) = latest_data st
   \<or> (\<exists>t c p. latest_data (fst (publish F output st)) = json_text (str_int t) (py_str F c) (py_str F p))"
proof (cases "publish F output st")
  case (Pair st' err)
  show ?thesis
  proof (cases err)
    case None
    with Pair have "\<exists>t c p. latest_data st' = json_text (str_int t) (py_str F c) (py_str F p)"
      by (auto simp: publish_def Let_def split: sum.splits prod.splits) blast
    with Pair show ?thesis by simp
  next
    case (Some e)
    with Pair have "latest_data st' = latest_data st"
      by (auto simp: publish_def Let_def split: sum.splits prod.splits)
    with Pair show ?thesis by simp
  qed
qed

lemma main_iteration_latest_data:
  "latest_data (main_iteration F st p1line) = latest_data st
   \<or> (\<exists>t c p. latest_data (main_iteration F st p1line) =
                  json_text (str_int t) (py_str F c) (py_str F p))"
proof (cases "CHR ''!'' \<in> set p1line
    \<and> checkcrc ((if CHR ''/'' \<in> set p1line then [] else p1telegram st) @ p1line) = Inr True")
  case False
  then show ?thesis
    using try_body_effects [of p1line st F] by simp
next
  case True
  let ?st1 = "st\<lparr>p1telegram := (if CHR ''/'' \<in> set p1line then [] else p1telegram st) @ p1line\<rparr>"
  show ?thesis
  proof (cases "decode_ascii p1line")
    case (Inl e)
    then show ?thesis
      by (simp add: main_iteration_def try_body_def)
  next
    case (Inr s)
    then have s: "s = p1line"
      by (rule decode_ascii_id)
    show ?thesis
    proof (cases "parse_lines F (split_crlf (p1telegram ?st1)) []")
      case (Inl e)
      with Inr s True show ?thesis
        by (simp add: main_iteration_def try_body_def process_telegram_def)
    next
      case out: (Inr rec)
      have "latest_data (main_iteration F st p1line) = latest_data (fst (publish F rec ?st1))"
        using Inr s True out
        by (cases "publish F rec ?st1")
          (auto simp: main_iteration_def try_body_def process_telegram_def split: option.splits)
      with publish_latest_data [of F rec ?st1] show ?thesis
        by simp
    qed
  qed
qed

text \<open>
  Claim C9. When the processing of a telegram ends without an exception, the snapshot
  it published is the text \<^verbatim>\<open>{"ts":"T","c":"C","p":"P"}\<close>, where \<^verbatim>\<open>T\<close> is the Unix
  time of the \<^verbatim>\<open>Timestamp\<close> field in decimal and \<^verbatim>\<open>C\<close> and \<^verbatim>\<open>P\<close> are the sums of the two
  consumption and of the two production rates as an f-string renders them. A request
  whose path holds \<^verbatim>\<open>?live\<close>, served before any telegram was published, is answered with
  status 200 and the empty initial \<^verbatim>\<open>latest_data\<close> as its body. No turn of the loop
  leaves another text in \<^verbatim>\<open>latest_data\<close>: it keeps the snapshot or replaces it by a text
  of this form.
\<close>

theorem snapshot_json_and_live_query:
  \<open>(publish F output st = (st', None) \<longrightarrow>
      (\<exists>ts timestamp c1 c2 p1 p2 consumption production.
          map_of output ''Timestamp'' = Some ts \<and> to_unixtime_val ts = Inr timestamp
          \<and> map_of output ''Rate 1 (day) - total consumption'' = Some c1
          \<and> map_of output ''Rate 2 (night) - total consumption'' = Some c2
          \<and> py_add F c1 c2 = Inr consumption
          \<and> map_of output ''Rate 1 (day) - total production'' = Some p1
          \<and> map_of output ''Rate 2 (night) - total production'' = Some p2
          \<and> py_add F p1 p2 = Inr production
          \<and> latest_data st' =
              ''{"ts":"'' @ str_int timestamp @ ''","c":"'' @ py_str F consumption
              @ ''","p":"'' @ py_str F production @ ''"}''))
   \<and> (str_in ''?live'' path \<longrightarrow>
        do_GET path (latest_data (initial_state fs)) =
          Live \<lparr>status = 200, headers = [(''Content-type'', ''application/json'')], body = ''''\<rparr>)
   \<and> (latest_data (main_iteration F st0 p1line) = latest_data st0
      \<or> (\<exists>t c p. latest_data (main_iteration F st0 p1line) =
            ''{"ts":"'' @ str_int t @ ''","c":"'' @ py_str F c @ ''","p":"'' @ py_str F p @ ''"}''))\<close>
proof (intro conjI impI)
  show \<open>latest_data (main_iteration F st0 p1line) = latest_data st0
      \<or> (\<exists>t c p. latest_data (main_iteration F st0 p1line) =
            ''{"ts":"'' @ str_int t @ ''","c":"'' @ py_str F c @ ''","p":"'' @ py_str F p @ ''"}'')\<close>
    using main_iteration_latest_data [of F st0 p1line] by (simp add: json_text_def)
next
  assume "publish F output st = (st', None)"
  then have "\<exists>ts timestamp c1 c2 p1 p2 consumption production.
          map_of output ''Timestamp'' = Some ts \<and> to_unixtime_val ts = Inr timestamp
          \<and> map_of output ''Rate 1 (day) - total consumption'' = Some c1
          \<and> map_of output ''Rate 2 (night) - total consumption'' = Some c2
          \<and> py_add F c1 c2 = Inr consumption
          \<and> map_of output ''Rate 1 (day) - total production'' = Some p1
          \<and> map_of output ''Rate 2 (night) - total production'' = Some p2
          \<and> py_add F p1 p2 = Inr production
          \<and> latest_data st' =
              json_text (str_int timestamp) (py_str F consumption) (py_str F production)"
    by (auto simp: publish_def bind_err_def getitem_def Let_def
        split: sum.splits option.splits prod.splits)
  then show \<open>\<exists>ts timestamp c1 c2 p1 p2 consumption production.
          map_of output ''Timestamp'' = Some ts \<and> to_unixtime_val ts = Inr timestamp
          \<and> map_of output ''Rate 1 (day) - total consumption'' = Some c1
          \<and> map_of output ''Rate 2 (night) - total consumption'' = Some c2
          \<and> py_add F c1 c2 = Inr consumption
          \<and> map_of output ''Rate 1 (day) - total production'' = Some p1
          \<and> map_of output ''Rate 2 (night) - total production'' = Some p2
          \<and> py_add F p1 p2 = Inr production
          \<and> latest_data st' =
              ''{"ts":"'' @ str_int timestamp @ ''","c":"'' @ py_str F consumption
              @ ''","p":"'' @ py_str F production @ ''"}''\<close>
    by (simp add: json_text_def)
next
  assume "str_in ''?live'' path"
  then show "do_GET path (latest_data (initial_state fs)) =
          Live \<lparr>status = 200, headers = [(''Content-type'', ''application/json'')], body = ''''\<rparr>"
    by (simp add: do_GET_def initial_state_def)
qed

section \<open>Running the model on the sample telegram\<close>

lemmas re_eval = re_y_def re_m_def re_d_def re_H_def re_M_def re_S_def re_z_def two_digits_def
  one_digit_def space_digit_def in_range_def is_digit_def digit_val_def colon_two_def
  opt_fraction_def

lemma format_matches_S:
  "format_matches ''230615123045+0200'' = [((23, 6, 15, 12, 30, 45, ''+0200''), [])]"
  by (simp add: format_matches_def re_eval)

lemma format_matches_W:
  "format_matches ''230615123045+0100'' = [((23, 6, 15, 12, 30, 45, ''+0100''), [])]"
  by (simp add: format_matches_def re_eval)

lemma replicate_6: "replicate 6 x = [x, x, x, x, x, x]"
  by (simp add: eval_nat_numeral)

lemma tz_offset_S: "tz_offset ''+0200'' = Inr (7200, 0)"
  by (simp add: tz_offset_def dec_nat_def is_digit_def in_range_def digit_val_def bind_err_def
      replicate_6)

lemma tz_offset_W: "tz_offset ''+0100'' = Inr (3600, 0)"
  by (simp add: tz_offset_def dec_nat_def is_digit_def in_range_def digit_val_def bind_err_def
      replicate_6)

lemma days_in_june_2023: "days_in_month 2023 6 = 30"
  by (simp add: days_in_month_def)

lemma ymd2ord_sample: "ymd2ord 2023 6 15 = 738686"
proof -
  have "[1..<6] = [1, 2, 3, 4, 5 :: nat]"
    by (simp add: upt_rec)
  then show ?thesis
    by (simp add: ymd2ord_def days_before_year_def days_before_month_def days_in_month_def
        is_leap_def)
qed

lemma strptime_S:
  "strptime ''230615123045+0200'' =
     Inr \<lparr>dt_year = 2023, dt_month = 6, dt_day = 15, dt_hour = 12, dt_minute = 30,
          dt_second = 45, dt_offset_s = 7200, dt_offset_us = 0\<rparr>"
  by (simp add: strptime_def format_matches_S tz_offset_S days_in_june_2023 bind_err_def)

lemma strptime_W:
  "strptime ''230615123045+0100'' =
     Inr \<lparr>dt_year = 2023, dt_month = 6, dt_day = 15, dt_hour = 12, dt_minute = 30,
          dt_second = 45, dt_offset_s = 3600, dt_offset_us = 0\<rparr>"
  by (simp add: strptime_def format_matches_W tz_offset_W days_in_june_2023 bind_err_def)

lemma to_unixtime_S: "to_unixtime ''230615123045S'' = Inr 1686825045"
  by (simp add: to_unixtime_def strptime_S timestamp_int_def ymd2ord_sample bind_err_def)

lemma to_unixtime_W: "to_unixtime ''230615123045W'' = Inr 1686828645"
  by (simp add: to_unixtime_def strptime_W timestamp_int_def ymd2ord_sample bind_err_def)

section \<open>Properties of \<^verbatim>\<open>to_unixtime\<close>\<close>

lemma to_unixtime_other_flag:
  "flag \<noteq> CHR ''W'' \<Longrightarrow> flag \<noteq> CHR ''S'' \<Longrightarrow> to_unixtime (digits @ [flag]) = Inl NameError"
  by (simp add: to_unixtime_def bind_err_def)

text \<open>
  Claim C3. The flag \<^verbatim>\<open>S\<close> is read as +02:00 and \<^verbatim>\<open>W\<close> as +01:00: for the local time
  2023-06-15 12:30:45 the results are 10:30:45 and 11:30:45 UTC, 3600 seconds apart.
  A timestamp with any other flag is said to be read as UTC and to give a Unix
  timestamp all the same. There the code reaches the \<^verbatim>\<open>else\<close> branch, whose message
  reads the unbound name \<^verbatim>\<open>lastChar\<close>: the call raises \<^verbatim>\<open>NameError\<close> and returns no
  timestamp.
\<close>

theorem to_unixtime_unknown_flag_raises:
  "to_unixtime ''230615123045S'' = Inr 1686825045
   \<and> to_unixtime ''230615123045W'' = Inr 1686828645
   \<and> to_unixtime ''230615123045X'' = Inl NameError"
  using to_unixtime_other_flag [of "CHR ''X''" "''230615123045''"]
  by (simp add: to_unixtime_S to_unixtime_W)

subsection \<open>The lines\<close>

lemma main_iteration_plain:
  "decode_ascii l = Inr l \<Longrightarrow> CHR ''!'' \<notin> set l \<Longrightarrow>
   main_iteration F st l = st\<lparr>p1telegram := (if CHR ''/'' \<in> set l then [] else p1telegram st) @ l\<rparr>"
  by (simp add: main_iteration_def try_body_def)

lemma main_iteration_valid:
  "decode_ascii l = Inr l \<Longrightarrow> CHR ''!'' \<in> set l \<Longrightarrow>
   checkcrc ((if CHR ''/'' \<in> set l then [] else p1telegram st) @ l) = Inr True \<Longrightarrow>
   main_iteration F st l =
     (case process_telegram F (st\<lparr>p1telegram := (if CHR ''/'' \<in> set l then [] else p1telegram st) @ l\<rparr>) of
        (st', None) \<Rightarrow> st'
      | (st', Some e) \<Rightarrow> st'\<lparr>ser_open := False\<rparr>)"
  by (simp add: main_iteration_def try_body_def)

lemma main_loop_single: "main_loop F st [l] = main_iteration F st l"
  by (simp add: Let_def)

lemma feed_lines:
  "main_loop dec_ops (initial_state empty_fs) (tg_lines @ [l]) = main_iteration dec_ops (tg_state tg_body) l"
  by (simp add: tg_lines_def tg_body_def tg_state_def initial_state_def main_iteration_plain
      decode_ascii_def Let_def)

lemma feed_short_lines:
  "main_loop dec_ops (initial_state empty_fs) (butlast tg_lines @ [l]) =
     main_iteration dec_ops (tg_state (concat (butlast tg_lines))) l"
  by (simp add: tg_lines_def tg_state_def initial_state_def main_iteration_plain
      decode_ascii_def Let_def)

lemma sample_lines:
  "parsetelegramline dec_ops ''/FLU5'' = Inr None"
  "parsetelegramline dec_ops ''0-0:1.0.0(230615123045S)'' =
     Inr (Some \<lparr>row_desc = ''Timestamp'', row_value = VStr ''230615123045S'', row_unit = ''''\<rparr>)"
  "parsetelegramline dec_ops ''1-0:1.8.1(1.5*kWh)'' =
     Inr (Some \<lparr>row_desc = ''Rate 1 (day) - total consumption'', row_value = VFloat (15, 1),
                row_unit = ''kWh''\<rparr>)"
  "parsetelegramline dec_ops ''1-0:1.8.2(2.25*kWh)'' =
     Inr (Some \<lparr>row_desc = ''Rate 2 (night) - total consumption'', row_value = VFloat (225, 2),
                row_unit = ''kWh''\<rparr>)"
  "parsetelegramline dec_ops ''1-0:2.8.1(0.5*kWh)'' =
     Inr (Some \<lparr>row_desc = ''Rate 1 (day) - total production'', row_value = VFloat (5, 1),
                row_unit = ''kWh''\<rparr>)"
  "parsetelegramline dec_ops ''1-0:2.8.2(0.25*kWh)'' =
     Inr (Some \<lparr>row_desc = ''Rate 2 (night) - total production'', row_value = VFloat (25, 2),
                row_unit = ''kWh''\<rparr>)"
  "parsetelegramline dec_ops ''!CFA3'' = Inr None"
  "parsetelegramline dec_ops ''!cFA3'' = Inr None"
  "parsetelegramline dec_ops ''!91CA'' = Inr None"
  "parsetelegramline dec_ops '''' = Inr None"
  by (simp_all add: line_eval dec_eval)

subsection \<open>The checksums\<close>

lemma crc16_sample: "crc16 (tg_body @ ''!'') = 0xCFA3"
  by (simp add: tg_body_def tg_lines_def crc16_eval)

lemma crc16_short_sample: "crc16 (concat (butlast tg_lines) @ ''!'') = 0x91CA"
  by (simp add: tg_lines_def crc16_eval)

lemma checkcrc_sample: "checkcrc (tg_body @ ''!CFA3'' @ [CR, LF]) = Inr True"
proof -
  have fs: "find_sep 0 (tg_body @ ''!CFA3'' @ [CR, LF]) = Some 113"
    by (simp add: tg_body_def tg_lines_def)
  have given: "py_int16 (py_strip (''CFA3'' @ [CR, LF])) = Inr 0xCFA3"
    by (simp add: int16_eval)
  show ?thesis
    by (subst checkcrc_first_sep [OF fs])
      (use crc16_sample given in \<open>simp add: tg_body_def tg_lines_def bind_err_def decode_ascii_def\<close>)
qed

lemma checkcrc_sample_lower: "checkcrc (tg_body @ ''!cFA3'' @ [CR, LF]) = Inr True"
proof -
  have fs: "find_sep 0 (tg_body @ ''!cFA3'' @ [CR, LF]) = Some 113"
    by (simp add: tg_body_def tg_lines_def)
  have given: "py_int16 (py_strip (''cFA3'' @ [CR, LF])) = Inr 0xCFA3"
    by (simp add: int16_eval)
  show ?thesis
    by (subst checkcrc_first_sep [OF fs])
      (use crc16_sample given in \<open>simp add: tg_body_def tg_lines_def bind_err_def decode_ascii_def\<close>)
qed

lemma checkcrc_short_sample: "checkcrc (concat (butlast tg_lines) @ ''!91CA'' @ [CR, LF]) = Inr True"
proof -
  have fs: "find_sep 0 (concat (butlast tg_lines) @ ''!91CA'' @ [CR, LF]) = Some 92"
    by (simp add: tg_lines_def)
  have given: "py_int16 (py_strip (''91CA'' @ [CR, LF])) = Inr 0x91CA"
    by (simp add: int16_eval)
  show ?thesis
    by (subst checkcrc_first_sep [OF fs])
      (use crc16_short_sample given in \<open>simp add: tg_lines_def bind_err_def decode_ascii_def\<close>)
qed

subsection \<open>The telegram as a whole\<close>

lemma char_of_digit:
  "char_of (48 :: nat) = CHR ''0''" "char_of (49 :: nat) = CHR ''1''" "char_of (50 :: nat) = CHR ''2''"
  "char_of (51 :: nat) = CHR ''3''" "char_of (52 :: nat) = CHR ''4''" "char_of (53 :: nat) = CHR ''5''"
  "char_of (54 :: nat) = CHR ''6''" "char_of (55 :: nat) = CHR ''7''" "char_of (56 :: nat) = CHR ''8''"
  "char_of (57 :: nat) = CHR ''9''"
  by (simp_all add: char_of_def bit_Suc_0_iff)

lemma str_int_sample: "str_int 1686825045 = ''1686825045''"
  by (simp add: str_int_def decdigits.simps char_of_digit)

lemma dec_sum_consumption: "dec_add (15, 1) (225, 2) = (375, 2) \<and> dec_str (375, 2) = ''3.75''"
  by (simp add: dec_str_def dec_add_def decdigits.simps char_of_digit)

lemma dec_sum_production: "dec_add (5, 1) (25, 2) = (75, 2) \<and> dec_str (75, 2) = ''0.75''"
  by (simp add: dec_str_def dec_add_def decdigits.simps char_of_digit)

lemma parse_sample:
  "parse_lines dec_ops (split_crlf (tg_body @ ''!CFA3'' @ [CR, LF])) [] = Inr tg_record"
  by (simp add: tg_body_def tg_lines_def tg_record_def sample_lines decode_ascii_def bind_err_def)

lemma parse_sample_lower:
  "parse_lines dec_ops (split_crlf (tg_body @ ''!cFA3'' @ [CR, LF])) [] = Inr tg_record"
  by (simp add: tg_body_def tg_lines_def tg_record_def sample_lines decode_ascii_def bind_err_def)

lemma parse_short_sample:
  "parse_lines dec_ops (split_crlf (concat (butlast tg_lines) @ ''!91CA'' @ [CR, LF])) [] =
     Inr (butlast tg_record)"
  by (simp add: tg_lines_def tg_record_def sample_lines decode_ascii_def bind_err_def)

lemma tg_files_written: "tg_files \<noteq> empty_fs"
  by (simp add: tg_files_def empty_fs_def)

lemma publish_sample:
  "publish dec_ops tg_record (tg_state buf) =
     (\<lparr>p1telegram = buf, latest_data = tg_json, files = tg_files, ser_open = True\<rparr>, None)"
  using dec_sum_consumption dec_sum_production
  by (simp add: publish_def tg_record_def tg_state_def tg_files_def tg_json_def getitem_def
      slice_0_6_def to_unixtime_val_def to_unixtime_S bind_err_def dec_ops_def json_text_def
      str_int_sample py_str_def write_csv_def open_append_def append_row_def empty_fs_def)

lemma publish_short_sample:
  "publish dec_ops (butlast tg_record) (tg_state buf) =
     (\<lparr>p1telegram = buf, latest_data = '''',
       files = \<lparr>contents = [(''data/230615.csv'',
                 [Header (map fst (butlast tg_record)), Row (map snd (butlast tg_record))])],
                open_error = (\<lambda>filename. None)\<rparr>,
       ser_open = True\<rparr>, Some KeyError)"
  using dec_sum_consumption
  by (simp add: publish_def tg_record_def tg_state_def getitem_def
      slice_0_6_def to_unixtime_val_def to_unixtime_S bind_err_def dec_ops_def write_csv_def
      open_append_def append_row_def empty_fs_def)

lemma run_sample:
  "main_loop dec_ops (initial_state empty_fs) (tg_lines @ [''!CFA3'' @ [CR, LF]]) =
     \<lparr>p1telegram = tg_body @ ''!CFA3'' @ [CR, LF], latest_data = tg_json, files = tg_files,
      ser_open = True\<rparr>"
proof -
  have "main_iteration dec_ops (tg_state tg_body) (''!CFA3'' @ [CR, LF]) =
     (case process_telegram dec_ops (tg_state (tg_body @ ''!CFA3'' @ [CR, LF])) of
        (st', None) \<Rightarrow> st'
      | (st', Some e) \<Rightarrow> st'\<lparr>ser_open := False\<rparr>)"
    using checkcrc_sample
      main_iteration_valid [of "''!CFA3'' @ [CR, LF]" "tg_state tg_body" dec_ops]
    by (simp add: tg_state_def decode_ascii_def)
  moreover have "process_telegram dec_ops (tg_state (tg_body @ ''!CFA3'' @ [CR, LF])) =
      publish dec_ops tg_record (tg_state (tg_body @ ''!CFA3'' @ [CR, LF]))"
    using parse_sample by (simp add: process_telegram_def tg_state_def)
  ultimately show ?thesis
    by (simp add: feed_lines publish_sample)
qed

lemma run_sample_lower:
  "main_loop dec_ops (initial_state empty_fs) (tg_lines @ [''!cFA3'' @ [CR, LF]]) =
     \<lparr>p1telegram = tg_body @ ''!cFA3'' @ [CR, LF], latest_data = tg_json, files = tg_files,
      ser_open = True\<rparr>"
proof -
  have "main_iteration dec_ops (tg_state tg_body) (''!cFA3'' @ [CR, LF]) =
     (case process_telegram dec_ops (tg_state (tg_body @ ''!cFA3'' @ [CR, LF])) of
        (st', None) \<Rightarrow> st'
      | (st', Some e) \<Rightarrow> st'\<lparr>ser_open := False\<rparr>)"
    using checkcrc_sample_lower
      main_iteration_valid [of "''!cFA3'' @ [CR, LF]" "tg_state tg_body" dec_ops]
    by (simp add: tg_state_def decode_ascii_def)
  moreover have "process_telegram dec_ops (tg_state (tg_body @ ''!cFA3'' @ [CR, LF])) =
      publish dec_ops tg_record (tg_state (tg_body @ ''!cFA3'' @ [CR, LF]))"
    using parse_sample_lower by (simp add: process_telegram_def tg_state_def)
  ultimately show ?thesis
    by (simp add: feed_lines publish_sample)
qed

lemma run_short_sample:
  "main_loop dec_ops (initial_state empty_fs) (butlast tg_lines @ [''!91CA'' @ [CR, LF]]) =
     \<lparr>p1telegram = concat (butlast tg_lines) @ ''!91CA'' @ [CR, LF], latest_data = '''',
      files = \<lparr>contents = [(''data/230615.csv'',
                [Header (map fst (butlast tg_record)), Row (map snd (butlast tg_record))])],
               open_error = (\<lambda>filename. None)\<rparr>,
      ser_open = False\<rparr>"
proof -
  let ?buf = "concat (butlast tg_lines) @ ''!91CA'' @ [CR, LF]"
  have "main_iteration dec_ops (tg_state (concat (butlast tg_lines))) (''!91CA'' @ [CR, LF]) =
     (case process_telegram dec_ops (tg_state ?buf) of
        (st', None) \<Rightarrow> st'
      | (st', Some e) \<Rightarrow> st'\<lparr>ser_open := False\<rparr>)"
    using checkcrc_short_sample
      main_iteration_valid [of "''!91CA'' @ [CR, LF]" "tg_state (concat (butlast tg_lines))" dec_ops]
    by (simp add: tg_state_def decode_ascii_def)
  moreover have "process_telegram dec_ops (tg_state ?buf) =
      publish dec_ops (butlast tg_record) (tg_state ?buf)"
    using parse_short_sample by (simp add: process_telegram_def tg_state_def)
  ultimately show ?thesis
    by (simp add: feed_short_lines publish_short_sample)
qed

section \<open>The claims about the loop on the sample telegram\<close>

theorem framer_step_witness:
  "decode_ascii (''/FLU5'' @ [CR, LF]) = Inr (''/FLU5'' @ [CR, LF])
   \<and> main_iteration dec_ops (tg_state ''1-0:1.8.1(1.5'') (''/FLU5'' @ [CR, LF]) =
       tg_state (''/FLU5'' @ [CR, LF])
   \<and> decode_ascii [CHR 0xE9, CR, LF] = Inl UnicodeDecodeError
   \<and> main_iteration dec_ops (tg_state ''/FLU5'') [CHR 0xE9, CR, LF] =
       (tg_state ''/FLU5'')\<lparr>ser_open := False\<rparr>
   \<and> p1telegram (main_iteration dec_ops (tg_state tg_body) (''!CFA3'' @ [CR, LF])) =
       tg_body @ ''!CFA3'' @ [CR, LF]"
  using
    framer_step [of "''/FLU5'' @ [CR, LF]" UnicodeDecodeError dec_ops
      "tg_state ''1-0:1.8.1(1.5''" "''/FLU5'' @ [CR, LF]"]
    framer_step [of "[CHR 0xE9, CR, LF]" UnicodeDecodeError dec_ops "tg_state ''/FLU5''" "[]"]
    framer_step [of "''!CFA3'' @ [CR, LF]" UnicodeDecodeError dec_ops "tg_state tg_body"
      "''!CFA3'' @ [CR, LF]"]
  by (simp add: decode_ascii_def tg_state_def)

text \<open>
  Claim C6 as stated fails on a line that does not decode: it holds the start marker
  and a byte above 127, and the buffer is neither emptied nor extended by it.
\<close>

theorem framer_step_counterexample:
  "CHR ''/'' \<in> set (''/FLU5'' @ [CHR 0xE9, CR, LF])
   \<and> p1telegram (main_iteration dec_ops (tg_state ''1-0:1.8.1(1.5'') (''/FLU5'' @ [CHR 0xE9, CR, LF])) =
       ''1-0:1.8.1(1.5''"
  by (simp add: main_iteration_def try_body_def decode_ascii_def tg_state_def)

theorem effects_only_after_valid_crc_witness:
  "files (main_iteration dec_ops (tg_state tg_body) (''!CFA3'' @ [CR, LF])) \<noteq> files (tg_state tg_body)
   \<and> CHR ''!'' \<in> set (''!CFA3'' @ [CR, LF])
   \<and> checkcrc (tg_body @ ''!CFA3'' @ [CR, LF]) = Inr True
   \<and> py_int16 (py_strip (''CFA4'' @ [CR, LF])) = Inr 0xCFA4
   \<and> uint (crc16 (tg_body @ ''!'')) = 0xCFA3
   \<and> files (main_iteration dec_ops (tg_state tg_body) (''!CFA4'' @ [CR, LF])) = empty_fs
   \<and> latest_data (main_iteration dec_ops (tg_state tg_body) (''!CFA4'' @ [CR, LF])) = ''''"
proof -
  have changed: "files (main_iteration dec_ops (tg_state tg_body) (''!CFA3'' @ [CR, LF])) \<noteq>
      files (tg_state tg_body)"
    using run_sample tg_files_written by (simp add: feed_lines tg_state_def)
  from effects_only_after_valid_crc
    [where F = dec_ops and st = "tg_state tg_body" and ?p1line = "''!CFA3'' @ [CR, LF]"] changed
  have ok: "checkcrc (tg_body @ ''!CFA3'' @ [CR, LF]) = Inr True"
    by (simp add: tg_state_def)
  have fs: "find_sep 0 (tg_body @ ''!CFA4'' @ [CR, LF]) = Some 113"
    by (simp add: tg_body_def tg_lines_def)
  have given: "py_int16 (py_strip (''CFA4'' @ [CR, LF])) = Inr 0xCFA4"
    by (simp add: int16_eval)
  have crc: "uint (crc16 (tg_body @ ''!'')) = 0xCFA3"
    by (simp add: crc16_sample)
  from effects_only_after_valid_crc
    [where F = dec_ops and st = "tg_state tg_body" and ?p1line = "''!CFA4'' @ [CR, LF]"
       and i = 113 and n = "0xCFA4"] fs given crc
  have "files (main_iteration dec_ops (tg_state tg_body) (''!CFA4'' @ [CR, LF])) = empty_fs
     \<and> latest_data (main_iteration dec_ops (tg_state tg_body) (''!CFA4'' @ [CR, LF])) = ''''"
    by (simp add: tg_state_def tg_body_def tg_lines_def)
  with changed ok given crc show ?thesis by simp
qed

text \<open>
  Claim C1 as stated fails on a checksum with one byte changed that still denotes the
  same number. The sample telegram is valid with the checksum \<^verbatim>\<open>CFA3\<close>; with its first
  byte changed to \<^verbatim>\<open>c\<close> the telegram is accepted all the same, both rows are written
  and the snapshot is published.
\<close>

theorem corrupted_checksum_byte_counterexample:
  "checkcrc (tg_body @ ''!CFA3'' @ [CR, LF]) = Inr True
   \<and> files (main_loop dec_ops (initial_state empty_fs) (tg_lines @ [''!cFA3'' @ [CR, LF]])) = tg_files
   \<and> tg_files \<noteq> empty_fs
   \<and> latest_data (main_loop dec_ops (initial_state empty_fs) (tg_lines @ [''!cFA3'' @ [CR, LF]])) = tg_json"
  using run_sample_lower checkcrc_sample tg_files_written by simp

theorem missing_fields_witness:
  "map_of ([] :: dec pydict) ''Timestamp'' = None
   \<and> publish dec_ops [] (tg_state []) = (tg_state [], Some KeyError)
   \<and> map_of tg_record ''Timestamp'' = Some (VStr ''230615123045S'')
   \<and> open_append ''data/230615.csv'' tg_nodir = Some OSError
   \<and> publish dec_ops tg_record ((tg_state [])\<lparr>files := tg_nodir\<rparr>) =
       ((tg_state [])\<lparr>files := tg_nodir\<rparr>, Some OSError)
   \<and> map_of [(''Timestamp'', VStr ''23/615123045S'' :: dec pyval)] ''Timestamp'' =
       Some (VStr ''23/615123045S'')
   \<and> open_append ''data/23/615.csv'' tg_flat = Some OSError
   \<and> publish dec_ops [(''Timestamp'', VStr ''23/615123045S'')] ((tg_state [])\<lparr>files := tg_flat\<rparr>) =
       ((tg_state [])\<lparr>files := tg_flat\<rparr>, Some OSError)
   \<and> map_of [(''Timestamp'', VStr [CHR 0x00] :: dec pyval)] ''Timestamp'' = Some (VStr [CHR 0x00])
   \<and> open_append (''data/'' @ [CHR 0x00] @ ''.csv'') (empty_fs :: dec filesystem) = Some ValueError
   \<and> publish dec_ops [(''Timestamp'', VStr [CHR 0x00])] (tg_state []) = (tg_state [], Some ValueError)
   \<and> map_of (butlast tg_record) ''Timestamp'' = Some (VStr ''230615123045S'')
   \<and> map_of (butlast tg_record) ''Rate 2 (night) - total production'' = None
   \<and> open_append ''data/230615.csv'' (empty_fs :: dec filesystem) = None
   \<and> (\<exists>e. publish dec_ops (butlast tg_record) (tg_state []) =
            ((tg_state [])\<lparr>files :=
                \<lparr>contents = [(''data/230615.csv'',
                     [Header (map fst (butlast tg_record)), Row (map snd (butlast tg_record))])],
                 open_error = (\<lambda>filename. None)\<rparr>\<rparr>, Some e))"
  using
    missing_fields [of "[]" dec_ops "tg_state []" "[]" OSError]
    missing_fields [of tg_record dec_ops "(tg_state [])\<lparr>files := tg_nodir\<rparr>" "''230615123045S''" OSError]
    missing_fields [of "[(''Timestamp'', VStr ''23/615123045S'')]" dec_ops
      "(tg_state [])\<lparr>files := tg_flat\<rparr>" "''23/615123045S''" OSError]
    missing_fields [of "[(''Timestamp'', VStr [CHR 0x00])]" dec_ops "tg_state []" "[CHR 0x00]" ValueError]
    missing_fields [of "butlast tg_record" dec_ops "tg_state []" "''230615123045S''" OSError]
  by (simp add: tg_record_def tg_state_def tg_nodir_def tg_flat_def empty_fs_def open_append_def
      append_row_def)

text \<open>
  Claim C4 as stated fails on a CRC-valid telegram that has its timestamp but lacks the
  night-rate production field: the processing raises, nothing is published, but the row
  of the full record is in the day's file.
\<close>

theorem missing_rate_field_counterexample:
  "checkcrc (concat (butlast tg_lines) @ ''!91CA'' @ [CR, LF]) = Inr True
   \<and> map_of (butlast tg_record) ''Rate 2 (night) - total production'' = None
   \<and> contents (files (main_loop dec_ops (initial_state empty_fs) (butlast tg_lines @ [''!91CA'' @ [CR, LF]]))) =
       [(''data/230615.csv'',
          [Header (map fst (butlast tg_record)), Row (map snd (butlast tg_record))])]"
  using run_short_sample checkcrc_short_sample by (simp add: tg_record_def)

theorem snapshot_json_and_live_query_witness:
  \<open>publish dec_ops tg_record (tg_state []) =
      (\<lparr>p1telegram = [], latest_data = tg_json, files = tg_files, ser_open = True\<rparr>, None)
   \<and> tg_json = ''{"ts":"1686825045","c":"3.75","p":"0.75"}''
   \<and> latest_data (main_loop dec_ops (initial_state empty_fs) (tg_lines @ [''!CFA3'' @ [CR, LF]])) = tg_json
   \<and> str_in ''?live'' ''/?live''
   \<and> do_GET ''/?live'' (latest_data (initial_state (empty_fs :: dec filesystem))) =
        Live \<lparr>status = 200, headers = [(''Content-type'', ''application/json'')], body = ''''\<rparr>\<close>
  using
    snapshot_json_and_live_query
      [of dec_ops tg_record "tg_state []"
         "\<lparr>p1telegram = [], latest_data = tg_json, files = tg_files, ser_open = True\<rparr>"
         "''/?live''" "empty_fs :: dec filesystem"]
    publish_sample [of "[]"] run_sample
  by (simp add: tg_json_def)

end
